theory Spec2Isabelle
  imports Main
begin

section \<open>Instants and calendar arithmetic\<close>

text \<open>
  A JavaScript \<open>Date\<close> is a number of milliseconds since the epoch. The source treats
  every instant as naive local time, so the local-time accessors are plain arithmetic on
  that number (no time zone, no daylight saving).
\<close>

type_synonym instant = int

definition msPerMinute :: int where
  "msPerMinute = 60000"

definition msPerHour :: int where
  "msPerHour = 3600000"

definition msPerDay :: int where
  "msPerDay = 86400000"

text \<open>\<open>d.setHours(h, m, s, ms)\<close>: the same calendar day, the time of day replaced.\<close>

definition setHours :: "instant \<Rightarrow> int \<Rightarrow> int \<Rightarrow> int \<Rightarrow> int \<Rightarrow> instant" where
  "setHours d h m s ms = d - d mod msPerDay + h * msPerHour + m * msPerMinute + s * 1000 + ms"

definition getHours :: "instant \<Rightarrow> int" where
  "getHours d = (d mod msPerDay) div msPerHour"

definition getMinutes :: "instant \<Rightarrow> int" where
  "getMinutes d = (d mod msPerHour) div msPerMinute"

text \<open>\<open>d.setMinutes(d.getMinutes() + n)\<close>: the minutes field overflows into the hours.\<close>

definition addMinutes :: "instant \<Rightarrow> int \<Rightarrow> instant" where
  "addMinutes d n = d + n * msPerMinute"

text \<open>A readable way to write a concrete instant: day number, hour, minute.\<close>

definition instantOf :: "int \<Rightarrow> int \<Rightarrow> int \<Rightarrow> instant" where
  "instantOf day h m = day * msPerDay + h * msPerHour + m * msPerMinute"

section \<open>Data model\<close>

text \<open>
  Identifiers are the store's uuid strings. They are never empty, so the source's
  truthiness tests on an identifier (\<open>if (excludeBookingId)\<close>, \<open>if (!dto.userId)\<close>) are
  tests of presence, and an optional identifier is an \<open>option\<close>.
\<close>

type_synonym ident = string

datatype bookingStatus = Pending | Confirmed | Cancelled | Completed

datatype paymentStatus = PaymentPending | Paid | Refunded

datatype blockReason = Maintenance | PrivateEvent | Weather | Other

text \<open>
  An \<open>HH:mm\<close> string after \<open>split(':').map(Number)\<close>: the hour and the minute. The
  model starts from a string of that shape, as the request types document it; a missing
  or empty time string is \<open>None\<close>.
\<close>

type_synonym hhmm = "int \<times> int"

definition toMinutes :: "hhmm \<Rightarrow> int" where
  "toMinutes t = fst t * 60 + snd t"

text \<open>
  The rows of the store. Fields that no check reads (duration, price, payment method,
  notes, description) are passed through by the source and left out here. A table is the
  list of its rows in insertion order; the identifier of a new row is generated by the
  store and is an argument of the operation that creates it. The store's referential
  checks are outside the sources: the operations are modelled for requests whose court
  and client references exist.
\<close>

record court =
  courtId :: ident
  courtComplexUserId :: ident
  courtIsActive :: bool

record client =
  clientId :: ident
  clientUserId :: ident

record booking =
  bId :: ident
  bCourtId :: ident
  bUserId :: ident
  bClientId :: "ident option"
  bBookingDate :: instant
  bStartTime :: instant
  bEndTime :: instant
  bStatus :: bookingStatus
  bPaymentStatus :: paymentStatus

record courtAvailability =
  caId :: ident
  caCourtId :: ident
  caStartDate :: instant
  caEndDate :: instant
  caStartTime :: "hhmm option"
  caEndTime :: "hhmm option"
  caReason :: blockReason
  caIsActive :: bool

record db =
  courts :: "court list"
  clients :: "client list"
  bookings :: "booking list"
  blocks :: "courtAvailability list"

text \<open>The exceptions of the source, with the message each throw site gives.\<close>

datatype message =
    CanchaNoEncontrada
  | SinPermisoCrearReservas
  | ClienteNoEncontrado
  | SinPermisoUsarCliente
  | HoraFinPosterior
  | CanchaNoDisponibleEnHorario
  | ReservaNoEncontrada
  | SinPermisoVerReserva
  | SinPermisoActualizarReserva
  | ReservaYaCancelada
  | NoCancelarCompletada
  | CanchaNoActiva
  | CanchaNoDisponible "blockReason option"
  | YaExisteReserva
  | UserIdRequerido
  | ClientIdRequerido
  | FechaFinPosterior
  | BloqueoNoEncontrado
  | SinPermisoBloquear
  | SinPermisoVerBloqueo

datatype error =
    NotFoundException message
  | ForbiddenException message
  | BadRequestException message
  | ConflictException message

section \<open>Interval overlap\<close>

text \<open>
  The three-case test of the source, as written for blackouts in
  \<open>BookingsService.checkTimeSlotAvailability\<close>,
  \<open>CourtAvailabilityService.checkAvailability\<close> and the public slot listing: the
  request starts inside the block, ends inside it, or contains it.
\<close>

definition hasOverlap :: "int \<Rightarrow> int \<Rightarrow> int \<Rightarrow> int \<Rightarrow> bool" where
  "hasOverlap reqStart reqEnd blockStart blockEnd =
     ((reqStart \<ge> blockStart \<and> reqStart < blockEnd) \<or>
      (reqEnd > blockStart \<and> reqEnd \<le> blockEnd) \<or>
      (reqStart \<le> blockStart \<and> reqEnd \<ge> blockEnd))"

text \<open>
  The specification's test for two half-open intervals \<open>[aStart, aEnd)\<close> and
  \<open>[bStart, bEnd)\<close>.
\<close>

definition overlaps :: "int \<Rightarrow> int \<Rightarrow> int \<Rightarrow> int \<Rightarrow> bool" where
  "overlaps aStart aEnd bStart bEnd = (aStart < bEnd \<and> bStart < aEnd)"

section \<open>Conflict resolver\<close>

definition activeStatus :: "bookingStatus \<Rightarrow> bool" where
  "activeStatus s = (s = Pending \<or> s = Confirmed)"

text \<open>
  The \<open>OR\<close> of the query in \<open>checkTimeSlotAvailability\<close>: the candidate starts during
  the stored booking, ends during it, or contains it.
\<close>

definition conflictsWith :: "instant \<Rightarrow> instant \<Rightarrow> booking \<Rightarrow> bool" where
  "conflictsWith startTime endTime b =
     ((bStartTime b \<le> startTime \<and> bEndTime b > startTime) \<or>
      (bStartTime b < endTime \<and> bEndTime b \<ge> endTime) \<or>
      (bStartTime b \<ge> startTime \<and> bEndTime b \<le> endTime))"

text \<open>
  \<open>where.id = { not: excludeBookingId }\<close>, added only when an id is supplied.
\<close>

definition notExcluded :: "ident option \<Rightarrow> booking \<Rightarrow> bool" where
  "notExcluded excludeBookingId b =
     (case excludeBookingId of None \<Rightarrow> True | Some x \<Rightarrow> bId b \<noteq> x)"

definition conflictingBookings :: "db \<Rightarrow> ident \<Rightarrow> instant \<Rightarrow> instant \<Rightarrow> ident option \<Rightarrow> booking list" where
  "conflictingBookings d cid startTime endTime excludeBookingId =
     filter (\<lambda>b. bCourtId b = cid \<and> activeStatus (bStatus b) \<and>
                 conflictsWith startTime endTime b \<and> notExcluded excludeBookingId b)
       (bookings d)"

text \<open>
  The active blocks of a court whose date range holds the given day instant
  (\<open>startDate <= day\<close> and \<open>endDate >= day\<close>).
\<close>

definition activeBlocks :: "db \<Rightarrow> ident \<Rightarrow> instant \<Rightarrow> courtAvailability list" where
  "activeBlocks d cid day =
     filter (\<lambda>k. caCourtId k = cid \<and> caIsActive k \<and> caStartDate k \<le> day \<and> caEndDate k \<ge> day)
       (blocks d)"

text \<open>
  The loop over the blocks: a block without a start or without an end time blocks the
  whole day; otherwise its minutes are tested against the request's. The result is the
  availability.
\<close>

fun blocksAllow :: "int \<Rightarrow> int \<Rightarrow> courtAvailability list \<Rightarrow> bool" where
  "blocksAllow reqStartMinutes reqEndMinutes [] = True"
| "blocksAllow reqStartMinutes reqEndMinutes (block # rest) =
     (case caStartTime block of
        None \<Rightarrow> False
      | Some st \<Rightarrow>
          (case caEndTime block of
             None \<Rightarrow> False
           | Some en \<Rightarrow>
               (if hasOverlap reqStartMinutes reqEndMinutes (toMinutes st) (toMinutes en)
                then False
                else blocksAllow reqStartMinutes reqEndMinutes rest)))"

definition checkTimeSlotAvailability :: "db \<Rightarrow> ident \<Rightarrow> instant \<Rightarrow> instant \<Rightarrow> ident option \<Rightarrow> bool" where
  "checkTimeSlotAvailability d cid startTime endTime excludeBookingId =
     (if length (conflictingBookings d cid startTime endTime excludeBookingId) > 0 then False
      else
        (let bookingDate = setHours startTime 0 0 0 0;
             blks = activeBlocks d cid bookingDate
         in if length blks = 0 then True
            else blocksAllow (getHours startTime * 60 + getMinutes startTime)
                   (getHours endTime * 60 + getMinutes endTime) blks))"

subsection \<open>The resolver as the specification words it\<close>

text \<open>
  The specification's reading of the resolver, for comparison with the code: a candidate
  is unavailable when an active booking of the court, other than the excluded one,
  overlaps it, or when an active block whose date range holds the candidate's day covers
  it. The date range is inclusive and counted in calendar days: the day of the block's
  start date up to the day of its end date. A block covers the candidate when it lacks a
  start or an end time, or when its minutes overlap the candidate's minutes since
  midnight.
\<close>

definition dayOf :: "instant \<Rightarrow> int" where
  "dayOf t = t div msPerDay"

definition minutesSinceMidnight :: "instant \<Rightarrow> int" where
  "minutesSinceMidnight t = getHours t * 60 + getMinutes t"

definition bookingOverlapExists :: "db \<Rightarrow> ident \<Rightarrow> instant \<Rightarrow> instant \<Rightarrow> ident option \<Rightarrow> bool" where
  "bookingOverlapExists d cid s e excl =
     list_ex (\<lambda>b. bCourtId b = cid \<and> activeStatus (bStatus b) \<and> notExcluded excl b \<and>
                  overlaps (bStartTime b) (bEndTime b) s e)
       (bookings d)"

definition blockCovers :: "courtAvailability \<Rightarrow> int \<Rightarrow> int \<Rightarrow> bool" where
  "blockCovers k reqStart reqEnd =
     (case caStartTime k of
        None \<Rightarrow> True
      | Some st \<Rightarrow>
          (case caEndTime k of
             None \<Rightarrow> True
           | Some en \<Rightarrow> overlaps (toMinutes st) (toMinutes en) reqStart reqEnd))"

definition blackoutExists :: "db \<Rightarrow> ident \<Rightarrow> instant \<Rightarrow> instant \<Rightarrow> bool" where
  "blackoutExists d cid s e =
     list_ex (\<lambda>k. caCourtId k = cid \<and> caIsActive k \<and>
                  dayOf (caStartDate k) \<le> dayOf s \<and> dayOf s \<le> dayOf (caEndDate k) \<and>
                  blockCovers k (minutesSinceMidnight s) (minutesSinceMidnight e))
       (blocks d)"

definition specUnavailable :: "db \<Rightarrow> ident \<Rightarrow> instant \<Rightarrow> instant \<Rightarrow> ident option \<Rightarrow> bool" where
  "specUnavailable d cid s e excl =
     (bookingOverlapExists d cid s e excl \<or> blackoutExists d cid s e)"

text \<open>The data model's invariants on stored rows.\<close>

definition bookingWellFormed :: "booking \<Rightarrow> bool" where
  "bookingWellFormed b = (bStartTime b < bEndTime b)"

definition blockWellFormed :: "courtAvailability \<Rightarrow> bool" where
  "blockWellFormed k =
     (case caStartTime k of
        None \<Rightarrow> True
      | Some st \<Rightarrow> (case caEndTime k of None \<Rightarrow> True | Some en \<Rightarrow> toMinutes st < toMinutes en))"

text \<open>A block whose start date is a calendar day: it carries no time of day.\<close>

definition startsOnDayBoundary :: "courtAvailability \<Rightarrow> bool" where
  "startsOnDayBoundary k = (caStartDate k mod msPerDay = 0)"

definition blockDatesOrdered :: "courtAvailability \<Rightarrow> bool" where
  "blockDatesOrdered k = (caStartDate k \<le> caEndDate k)"

section \<open>Slot projection\<close>

subsection \<open>The dashboard listing: \<open>BookingsService.getAvailableSlots\<close>\<close>

record slot =
  slotStartTime :: instant
  slotEndTime :: instant
  slotAvailable :: bool
  slotBookingId :: "ident option"

record slotsResult =
  resCourtId :: ident
  resDate :: instant
  resSlots :: "slot list"

text \<open>
  The active bookings of the court whose booking date lies in the day, ordered by start
  time.
\<close>

definition dayBookings :: "db \<Rightarrow> ident \<Rightarrow> instant \<Rightarrow> booking list" where
  "dayBookings d cid date =
     sort_key bStartTime
       (filter (\<lambda>b. bCourtId b = cid \<and>
                    bBookingDate b \<ge> setHours date 0 0 0 0 \<and>
                    bBookingDate b \<le> setHours date 23 59 59 999 \<and>
                    activeStatus (bStatus b))
          (bookings d))"

text \<open>The predicate of \<open>bookings.some\<close>: the occupancy test, with its containment case.\<close>

definition isBookedBy :: "instant \<Rightarrow> instant \<Rightarrow> booking \<Rightarrow> bool" where
  "isBookedBy currentTime slotEnd b =
     ((currentTime \<ge> bStartTime b \<and> currentTime < bEndTime b) \<or>
      (slotEnd > bStartTime b \<and> slotEnd \<le> bEndTime b) \<or>
      (currentTime \<le> bStartTime b \<and> slotEnd \<ge> bEndTime b))"

text \<open>The predicate of \<open>bookings.find\<close>: the lookup of the booking id, two cases only.\<close>

definition foundBy :: "instant \<Rightarrow> instant \<Rightarrow> booking \<Rightarrow> bool" where
  "foundBy currentTime slotEnd b =
     ((currentTime \<ge> bStartTime b \<and> currentTime < bEndTime b) \<or>
      (slotEnd > bStartTime b \<and> slotEnd \<le> bEndTime b))"

text \<open>The slot pushed by one turn of the loop.\<close>

definition slotAt :: "booking list \<Rightarrow> instant \<Rightarrow> slot" where
  "slotAt bs currentTime =
     (let slotEnd = addMinutes currentTime 30;
          isBooked = list_ex (isBookedBy currentTime slotEnd) bs
      in \<lparr> slotStartTime = currentTime,
           slotEndTime = slotEnd,
           slotAvailable = (\<not> isBooked),
           slotBookingId =
             (if isBooked then map_option bId (find (foundBy currentTime slotEnd) bs)
              else None) \<rparr>)"

text \<open>\<open>while (currentTime < dayEnd) { ...; currentTime = slotEnd }\<close>\<close>

function slotLoop :: "booking list \<Rightarrow> instant \<Rightarrow> instant \<Rightarrow> slot list" where
  "slotLoop bs currentTime dayEnd =
     (if currentTime < dayEnd
      then slotAt bs currentTime # slotLoop bs (addMinutes currentTime 30) dayEnd
      else [])"
  by pat_completeness auto
termination
  by (relation "measure (\<lambda>(bs, currentTime, dayEnd). nat (dayEnd - currentTime))")
     (auto simp: addMinutes_def msPerMinute_def)

declare slotLoop.simps [simp del]

definition BookingsService_getAvailableSlots :: "db \<Rightarrow> ident \<Rightarrow> instant \<Rightarrow> slotsResult" where
  "BookingsService_getAvailableSlots d cid date =
     \<lparr> resCourtId = cid,
       resDate = date,
       resSlots = slotLoop (dayBookings d cid date) (setHours date 6 0 0 0) (setHours date 23 0 0 0) \<rparr>"

subsection \<open>The public listing: \<open>PublicCourtsController.getAvailableSlots\<close>\<close>

datatype slotReason = Bloqueado blockReason | ReservaExistente

record publicSlot =
  psStartTime :: string
  psEndTime :: string
  psAvailable :: bool
  psReason :: "slotReason option"

record publicSlotsResult =
  prDate :: instant
  prCourtId :: ident
  prTotalSlots :: nat
  prAvailableSlots :: nat
  prSlots :: "publicSlot list"

text \<open>
  \<open>String(n).padStart(2, '0')\<close> for a number that is not negative: its decimal digits,
  padded on the left to two characters.
\<close>

definition digitChar :: "int \<Rightarrow> char" where
  "digitChar n = ''0123456789'' ! nat n"

function numberToString :: "int \<Rightarrow> string" where
  "numberToString n =
     (if n < 10 then [digitChar n] else numberToString (n div 10) @ [digitChar (n mod 10)])"
  by pat_completeness auto
termination
  by (relation "measure nat") auto

declare numberToString.simps [simp del]

definition padStart2 :: "string \<Rightarrow> string" where
  "padStart2 s = replicate (2 - length s) CHR ''0'' @ s"

definition clockString :: "int \<Rightarrow> int \<Rightarrow> string" where
  "clockString hour minute =
     padStart2 (numberToString hour) @ '':'' @ padStart2 (numberToString minute)"

text \<open>
  The loop over the blocks of one slot, with its \<open>break\<close>: the pair of \<open>available\<close> and
  \<open>reason\<close> it leaves.
\<close>

fun checkBlocks :: "int \<Rightarrow> int \<Rightarrow> courtAvailability list \<Rightarrow> bool \<times> slotReason option" where
  "checkBlocks hour minute [] = (True, None)"
| "checkBlocks hour minute (block # rest) =
     (case caStartTime block of
        None \<Rightarrow> (False, Some (Bloqueado (caReason block)))
      | Some st \<Rightarrow>
          (case caEndTime block of
             None \<Rightarrow> (False, Some (Bloqueado (caReason block)))
           | Some en \<Rightarrow>
               (if hasOverlap (hour * 60 + minute) (hour * 60 + minute + 30)
                     (toMinutes st) (toMinutes en)
                then (False, Some (Bloqueado (caReason block)))
                else checkBlocks hour minute rest)))"

definition publicSlotAt :: "instant \<Rightarrow> booking list \<Rightarrow> courtAvailability list \<Rightarrow> int \<Rightarrow> int \<Rightarrow> publicSlot" where
  "publicSlotAt date bs blks hour minute =
     (let slotStart = setHours date hour minute 0 0;
          slotEnd = addMinutes slotStart 30;
          endMinute = minute + 30;
          endHour = (if endMinute \<ge> 60 then hour + 1 else hour);
          blocked = checkBlocks hour minute blks;
          verdict = (if fst blocked
                     then (if list_ex (isBookedBy slotStart slotEnd) bs
                           then (False, Some ReservaExistente)
                           else blocked)
                     else blocked)
      in \<lparr> psStartTime = clockString hour minute,
           psEndTime = clockString endHour (endMinute mod 60),
           psAvailable = fst verdict,
           psReason = snd verdict \<rparr>)"

text \<open>\<open>for (hour = 6; hour < 23; hour++) for (minute = 0; minute < 60; minute += 30)\<close>\<close>

definition publicSlots :: "instant \<Rightarrow> booking list \<Rightarrow> courtAvailability list \<Rightarrow> publicSlot list" where
  "publicSlots date bs blks =
     concat (map (\<lambda>hour. map (\<lambda>minute. publicSlotAt date bs blks hour minute) [0, 30]) [6..22])"

definition findCourt :: "db \<Rightarrow> ident \<Rightarrow> court option" where
  "findCourt d cid = find (\<lambda>c. courtId c = cid) (courts d)"

definition PublicCourtsController_getAvailableSlots :: "db \<Rightarrow> ident \<Rightarrow> instant \<Rightarrow> error + publicSlotsResult" where
  "PublicCourtsController_getAvailableSlots d cid date =
     (case findCourt d cid of
        None \<Rightarrow> Inl (NotFoundException CanchaNoEncontrada)
      | Some c \<Rightarrow>
          (let startOfDay = setHours date 0 0 0 0;
               endOfDay = setHours date 23 59 59 999;
               bs = filter (\<lambda>b. bCourtId b = cid \<and> bBookingDate b \<ge> startOfDay \<and>
                                bBookingDate b \<le> endOfDay \<and> activeStatus (bStatus b))
                      (bookings d);
               blks = activeBlocks d cid startOfDay;
               slots = publicSlots date bs blks
           in Inr \<lparr> prDate = date,
                    prCourtId = courtId c,
                    prTotalSlots = length slots,
                    prAvailableSlots = length (filter psAvailable slots),
                    prSlots = slots \<rparr>))"

section \<open>Booking lifecycle\<close>

definition findClient :: "db \<Rightarrow> ident \<Rightarrow> client option" where
  "findClient d i = find (\<lambda>c. clientId c = i) (clients d)"

definition findBooking :: "db \<Rightarrow> ident \<Rightarrow> booking option" where
  "findBooking d i = find (\<lambda>b. bId b = i) (bookings d)"

text \<open>
  Modelled from the spec: the column defaults of a new booking row. The store's
  schema is not among the sources; the specification has a created booking persisted
  with \<open>status = pending\<close> and \<open>paymentStatus = pending\<close>, and the request type documents
  the same defaults for both optional fields.
\<close>

definition defaultStatus :: bookingStatus where
  "defaultStatus = Pending"

definition defaultPaymentStatus :: paymentStatus where
  "defaultPaymentStatus = PaymentPending"

subsection \<open>\<open>BookingsService.create\<close>\<close>

record createBookingDto =
  dtoBookingDate :: instant
  dtoStartTime :: instant
  dtoEndTime :: instant
  dtoStatus :: "bookingStatus option"
  dtoPaymentStatus :: "paymentStatus option"
  dtoCourtId :: ident
  dtoClientId :: ident

text \<open>
  The row written by \<open>prisma.booking.create\<close>: the request's fields spread into the data,
  the dates parsed, the user added; a field the request leaves out takes the column
  default. The identifier is the one the store generates, passed in as \<open>newId\<close>.
\<close>

definition createdBooking :: "ident \<Rightarrow> ident \<Rightarrow> createBookingDto \<Rightarrow> booking" where
  "createdBooking newId userId dto =
     \<lparr> bId = newId,
       bCourtId = dtoCourtId dto,
       bUserId = userId,
       bClientId = Some (dtoClientId dto),
       bBookingDate = dtoBookingDate dto,
       bStartTime = dtoStartTime dto,
       bEndTime = dtoEndTime dto,
       bStatus = (case dtoStatus dto of None \<Rightarrow> defaultStatus | Some st \<Rightarrow> st),
       bPaymentStatus =
         (case dtoPaymentStatus dto of None \<Rightarrow> defaultPaymentStatus | Some ps \<Rightarrow> ps) \<rparr>"

definition BookingsService_create :: "db \<Rightarrow> ident \<Rightarrow> ident \<Rightarrow> createBookingDto \<Rightarrow> (error + booking) \<times> db" where
  "BookingsService_create d newId userId dto =
     (case findCourt d (dtoCourtId dto) of
        None \<Rightarrow> (Inl (NotFoundException CanchaNoEncontrada), d)
      | Some c \<Rightarrow>
          if courtComplexUserId c \<noteq> userId
          then (Inl (ForbiddenException SinPermisoCrearReservas), d)
          else
            (case findClient d (dtoClientId dto) of
               None \<Rightarrow> (Inl (NotFoundException ClienteNoEncontrado), d)
             | Some cl \<Rightarrow>
                 if clientUserId cl \<noteq> userId
                 then (Inl (ForbiddenException SinPermisoUsarCliente), d)
                 else if dtoEndTime dto \<le> dtoStartTime dto
                 then (Inl (BadRequestException HoraFinPosterior), d)
                 else if \<not> checkTimeSlotAvailability d (dtoCourtId dto)
                             (dtoStartTime dto) (dtoEndTime dto) None
                 then (Inl (ConflictException CanchaNoDisponibleEnHorario), d)
                 else (Inr (createdBooking newId userId dto),
                       d\<lparr>bookings := bookings d @ [createdBooking newId userId dto]\<rparr>)))"

subsection \<open>\<open>BookingsService.update\<close>\<close>

text \<open>\<open>UpdateBookingDto = PartialType(CreateBookingDto)\<close>: every field optional.\<close>

record updateBookingDto =
  updBookingDate :: "instant option"
  updStartTime :: "instant option"
  updEndTime :: "instant option"
  updStatus :: "bookingStatus option"
  updPaymentStatus :: "paymentStatus option"
  updCourtId :: "ident option"
  updClientId :: "ident option"

text \<open>\<open>updateBookingDto.startTime || updateBookingDto.endTime\<close>\<close>

definition timesGiven :: "updateBookingDto \<Rightarrow> bool" where
  "timesGiven dto =
     (case updStartTime dto of
        Some t \<Rightarrow> True
      | None \<Rightarrow> (case updEndTime dto of Some t \<Rightarrow> True | None \<Rightarrow> False))"

text \<open>The effect of \<open>data = { ...updateBookingDto }\<close> on the row.\<close>

definition applyUpdate :: "updateBookingDto \<Rightarrow> booking \<Rightarrow> booking" where
  "applyUpdate dto b =
     b\<lparr> bCourtId := (case updCourtId dto of None \<Rightarrow> bCourtId b | Some c \<Rightarrow> c),
        bClientId := (case updClientId dto of None \<Rightarrow> bClientId b | Some c \<Rightarrow> Some c),
        bBookingDate := (case updBookingDate dto of None \<Rightarrow> bBookingDate b | Some t \<Rightarrow> t),
        bStartTime := (case updStartTime dto of None \<Rightarrow> bStartTime b | Some t \<Rightarrow> t),
        bEndTime := (case updEndTime dto of None \<Rightarrow> bEndTime b | Some t \<Rightarrow> t),
        bStatus := (case updStatus dto of None \<Rightarrow> bStatus b | Some st \<Rightarrow> st),
        bPaymentStatus :=
          (case updPaymentStatus dto of None \<Rightarrow> bPaymentStatus b | Some ps \<Rightarrow> ps) \<rparr>"

text \<open>\<open>prisma.booking.update({ where: { id }, data })\<close>\<close>

definition updateRow :: "ident \<Rightarrow> (booking \<Rightarrow> booking) \<Rightarrow> db \<Rightarrow> db" where
  "updateRow i f d = d\<lparr>bookings := map (\<lambda>b. if bId b = i then f b else b) (bookings d)\<rparr>"

definition BookingsService_update :: "db \<Rightarrow> ident \<Rightarrow> ident \<Rightarrow> updateBookingDto \<Rightarrow> (error + booking) \<times> db" where
  "BookingsService_update d i userId dto =
     (case findBooking d i of
        None \<Rightarrow> (Inl (NotFoundException ReservaNoEncontrada), d)
      | Some bk \<Rightarrow>
          if bUserId bk \<noteq> userId
          then (Inl (ForbiddenException SinPermisoActualizarReserva), d)
          else
            (let startTime = (case updStartTime dto of Some t \<Rightarrow> t | None \<Rightarrow> bStartTime bk);
                 endTime = (case updEndTime dto of Some t \<Rightarrow> t | None \<Rightarrow> bEndTime bk)
             in if timesGiven dto \<and> endTime \<le> startTime
                then (Inl (BadRequestException HoraFinPosterior), d)
                else if timesGiven dto \<and>
                        \<not> checkTimeSlotAvailability d (bCourtId bk) startTime endTime (Some i)
                then (Inl (ConflictException CanchaNoDisponibleEnHorario), d)
                else (Inr (applyUpdate dto bk), updateRow i (applyUpdate dto) d)))"

subsection \<open>\<open>BookingsService.cancelBooking\<close>\<close>

definition cancelData :: "booking \<Rightarrow> booking \<Rightarrow> booking" where
  "cancelData bk b =
     b\<lparr> bStatus := Cancelled,
        bPaymentStatus := (if bPaymentStatus bk = Paid then Refunded else PaymentPending) \<rparr>"

definition cancelBooking :: "db \<Rightarrow> ident \<Rightarrow> ident \<Rightarrow> (error + booking) \<times> db" where
  "cancelBooking d i userId =
     (case findBooking d i of
        None \<Rightarrow> (Inl (NotFoundException ReservaNoEncontrada), d)
      | Some bk \<Rightarrow>
          if bUserId bk \<noteq> userId
          then (Inl (ForbiddenException SinPermisoVerReserva), d)
          else if bStatus bk = Cancelled
          then (Inl (BadRequestException ReservaYaCancelada), d)
          else if bStatus bk = Completed
          then (Inl (BadRequestException NoCancelarCompletada), d)
          else (Inr (cancelData bk bk), updateRow i (cancelData bk) d))"

section \<open>Blackout registry\<close>

subsection \<open>\<open>CourtAvailabilityService.checkAvailability\<close>\<close>

record availabilityCheck =
  acAvailable :: bool
  acBlockedBy :: "courtAvailability option"

text \<open>
  The loop of \<open>checkAvailability\<close> over the blocks found: the first block that lacks a
  start or an end time, or whose minutes the request overlaps, is returned.
\<close>

fun firstBlocking :: "int \<Rightarrow> int \<Rightarrow> courtAvailability list \<Rightarrow> courtAvailability option" where
  "firstBlocking reqStartMinutes reqEndMinutes [] = None"
| "firstBlocking reqStartMinutes reqEndMinutes (block # rest) =
     (case caStartTime block of
        None \<Rightarrow> Some block
      | Some st \<Rightarrow>
          (case caEndTime block of
             None \<Rightarrow> Some block
           | Some en \<Rightarrow>
               (if hasOverlap reqStartMinutes reqEndMinutes (toMinutes st) (toMinutes en)
                then Some block
                else firstBlocking reqStartMinutes reqEndMinutes rest)))"

definition CourtAvailabilityService_checkAvailability :: "db \<Rightarrow> ident \<Rightarrow> instant \<Rightarrow> hhmm \<Rightarrow> hhmm \<Rightarrow> availabilityCheck" where
  "CourtAvailabilityService_checkAvailability d cid date startTime endTime =
     (let blks = activeBlocks d cid date
      in if length blks = 0 then \<lparr> acAvailable = True, acBlockedBy = None \<rparr>
         else
           (case firstBlocking (toMinutes startTime) (toMinutes endTime) blks of
              Some block \<Rightarrow> \<lparr> acAvailable = False, acBlockedBy = Some block \<rparr>
            | None \<Rightarrow> \<lparr> acAvailable = True, acBlockedBy = None \<rparr>))"

subsection \<open>\<open>CourtAvailabilityService.create\<close> and \<open>update\<close>\<close>

record createCourtAvailabilityDto =
  cadCourtId :: ident
  cadStartDate :: instant
  cadEndDate :: instant
  cadStartTime :: "hhmm option"
  cadEndTime :: "hhmm option"
  cadReason :: blockReason

text \<open>
  \<open>if (dto.startTime && dto.endTime) { ... if (endMinutes <= startMinutes) throw ... }\<close>:
  true when both times are given and the end is not after the start.
\<close>

definition timesRejected :: "hhmm option \<Rightarrow> hhmm option \<Rightarrow> bool" where
  "timesRejected startTime endTime =
     (case startTime of
        None \<Rightarrow> False
      | Some st \<Rightarrow> (case endTime of None \<Rightarrow> False | Some en \<Rightarrow> toMinutes en \<le> toMinutes st))"

text \<open>
  Modelled from the spec: a new block is active (the \<open>isActive\<close> column default;
  the store's schema is not among the sources).
\<close>

definition defaultIsActive :: bool where
  "defaultIsActive = True"

definition CourtAvailabilityService_create :: "db \<Rightarrow> ident \<Rightarrow> ident \<Rightarrow> createCourtAvailabilityDto \<Rightarrow> (error + courtAvailability) \<times> db" where
  "CourtAvailabilityService_create d newId userId dto =
     (case findCourt d (cadCourtId dto) of
        None \<Rightarrow> (Inl (NotFoundException CanchaNoEncontrada), d)
      | Some c \<Rightarrow>
          if courtComplexUserId c \<noteq> userId
          then (Inl (ForbiddenException SinPermisoBloquear), d)
          else if cadEndDate dto < cadStartDate dto
          then (Inl (BadRequestException FechaFinPosterior), d)
          else if timesRejected (cadStartTime dto) (cadEndTime dto)
          then (Inl (BadRequestException HoraFinPosterior), d)
          else
            (let k = \<lparr> caId = newId, caCourtId = cadCourtId dto,
                       caStartDate = cadStartDate dto, caEndDate = cadEndDate dto,
                       caStartTime = cadStartTime dto, caEndTime = cadEndTime dto,
                       caReason = cadReason dto, caIsActive = defaultIsActive \<rparr>
             in (Inr k, d\<lparr>blocks := blocks d @ [k]\<rparr>)))"

text \<open>
  A request field that the code copies whenever it is not \<open>undefined\<close>: it may be left
  out, carry an explicit \<open>null\<close>, or carry a value. The validation of the times tests
  truthiness, which only a value passes; the write tests \<open>!== undefined\<close>, so an explicit
  \<open>null\<close> clears the stored time.
\<close>

datatype 'a field = Omitted | ExplicitNull | Given 'a

definition truthy :: "'a field \<Rightarrow> 'a option" where
  "truthy f = (case f of Given v \<Rightarrow> Some v | Omitted \<Rightarrow> None | ExplicitNull \<Rightarrow> None)"

record updateCourtAvailabilityDto =
  uadStartDate :: "instant option"
  uadEndDate :: "instant option"
  uadStartTime :: "hhmm field"
  uadEndTime :: "hhmm field"
  uadReason :: "blockReason option"

text \<open>
  \<open>if (dto.startDate && dto.endDate) { ... if (endDate < startDate) throw ... }\<close>: true
  when both dates are given and the end is before the start.
\<close>

definition datesRejected :: "instant option \<Rightarrow> instant option \<Rightarrow> bool" where
  "datesRejected startDate endDate =
     (case startDate of
        None \<Rightarrow> False
      | Some sd \<Rightarrow> (case endDate of None \<Rightarrow> False | Some ed \<Rightarrow> ed < sd))"

definition applyBlockUpdate :: "updateCourtAvailabilityDto \<Rightarrow> courtAvailability \<Rightarrow> courtAvailability" where
  "applyBlockUpdate dto k =
     k\<lparr> caStartDate := (case uadStartDate dto of None \<Rightarrow> caStartDate k | Some t \<Rightarrow> t),
        caEndDate := (case uadEndDate dto of None \<Rightarrow> caEndDate k | Some t \<Rightarrow> t),
        caStartTime :=
          (case uadStartTime dto of
             Omitted \<Rightarrow> caStartTime k | ExplicitNull \<Rightarrow> None | Given t \<Rightarrow> Some t),
        caEndTime :=
          (case uadEndTime dto of
             Omitted \<Rightarrow> caEndTime k | ExplicitNull \<Rightarrow> None | Given t \<Rightarrow> Some t),
        caReason := (case uadReason dto of None \<Rightarrow> caReason k | Some r \<Rightarrow> r) \<rparr>"

definition findBlock :: "db \<Rightarrow> ident \<Rightarrow> courtAvailability option" where
  "findBlock d i = find (\<lambda>k. caId k = i) (blocks d)"

text \<open>
  \<open>findOne\<close> reads the block with its court and the court's complex; the owner compared
  is the complex's user. The court of a stored block exists (the block refers to it).
\<close>

definition blockOwner :: "db \<Rightarrow> courtAvailability \<Rightarrow> ident option" where
  "blockOwner d k = map_option courtComplexUserId (findCourt d (caCourtId k))"

definition CourtAvailabilityService_update :: "db \<Rightarrow> ident \<Rightarrow> ident \<Rightarrow> updateCourtAvailabilityDto \<Rightarrow> (error + courtAvailability) \<times> db" where
  "CourtAvailabilityService_update d i userId dto =
     (case findBlock d i of
        None \<Rightarrow> (Inl (NotFoundException BloqueoNoEncontrado), d)
      | Some k \<Rightarrow>
          if blockOwner d k \<noteq> Some userId
          then (Inl (ForbiddenException SinPermisoVerBloqueo), d)
          else if datesRejected (uadStartDate dto) (uadEndDate dto)
          then (Inl (BadRequestException FechaFinPosterior), d)
          else if timesRejected (truthy (uadStartTime dto)) (truthy (uadEndTime dto))
          then (Inl (BadRequestException HoraFinPosterior), d)
          else (Inr (applyBlockUpdate dto k),
                d\<lparr>blocks := map (\<lambda>x. if caId x = i then applyBlockUpdate dto x else x)
                                (blocks d)\<rparr>))"

section \<open>The public create path: \<open>PublicBookingsController.createBooking\<close>\<close>

record createPublicBookingDto =
  pubCourtId :: ident
  pubDate :: instant
  pubStartTime :: hhmm
  pubEndTime :: hhmm
  pubIsAppNative :: bool
  pubUserId :: "ident option"
  pubClientId :: "ident option"

text \<open>Step 5: the user and the client of the new row, by \<open>isAppNative\<close>.\<close>

definition finalIds :: "createPublicBookingDto \<Rightarrow> court \<Rightarrow> error + (ident \<times> ident option)" where
  "finalIds dto c =
     (if pubIsAppNative dto
      then (case pubUserId dto of
              None \<Rightarrow> Inl (BadRequestException UserIdRequerido)
            | Some u \<Rightarrow> Inr (u, pubClientId dto))
      else (case pubClientId dto of
              None \<Rightarrow> Inl (BadRequestException ClientIdRequerido)
            | Some cl \<Rightarrow>
                Inr (case pubUserId dto of None \<Rightarrow> courtComplexUserId c | Some u \<Rightarrow> u,
                     Some cl)))"

text \<open>Step 6: the row written, its status and payment status fixed by the code.\<close>

definition publicBooking :: "ident \<Rightarrow> createPublicBookingDto \<Rightarrow> ident \<Rightarrow> ident option \<Rightarrow> booking" where
  "publicBooking newId dto finalUserId finalClientId =
     \<lparr> bId = newId,
       bCourtId = pubCourtId dto,
       bUserId = finalUserId,
       bClientId = finalClientId,
       bBookingDate = pubDate dto,
       bStartTime = setHours (pubDate dto) (fst (pubStartTime dto)) (snd (pubStartTime dto)) 0 0,
       bEndTime = setHours (pubDate dto) (fst (pubEndTime dto)) (snd (pubEndTime dto)) 0 0,
       bStatus = Pending,
       bPaymentStatus = PaymentPending \<rparr>"

definition PublicBookingsController_createBooking :: "db \<Rightarrow> ident \<Rightarrow> createPublicBookingDto \<Rightarrow> (error + booking) \<times> db" where
  "PublicBookingsController_createBooking d newId dto =
     (case findCourt d (pubCourtId dto) of
        None \<Rightarrow> (Inl (NotFoundException CanchaNoEncontrada), d)
      | Some c \<Rightarrow>
          if \<not> courtIsActive c then (Inl (BadRequestException CanchaNoActiva), d)
          else
            (let bookingDate = pubDate dto;
                 startDateTime =
                   setHours bookingDate (fst (pubStartTime dto)) (snd (pubStartTime dto)) 0 0;
                 endDateTime =
                   setHours bookingDate (fst (pubEndTime dto)) (snd (pubEndTime dto)) 0 0;
                 duration = (endDateTime - startDateTime) div msPerMinute;
                 chk = CourtAvailabilityService_checkAvailability d (pubCourtId dto)
                         (pubDate dto) (pubStartTime dto) (pubEndTime dto);
                 conflicting =
                   filter (\<lambda>b. bCourtId b = pubCourtId dto \<and> activeStatus (bStatus b) \<and>
                               conflictsWith startDateTime endDateTime b)
                     (bookings d)
             in if duration \<le> 0 then (Inl (BadRequestException HoraFinPosterior), d)
                else if \<not> acAvailable chk
                then (Inl (BadRequestException
                             (CanchaNoDisponible (map_option caReason (acBlockedBy chk)))), d)
                else if length conflicting > 0
                then (Inl (BadRequestException YaExisteReserva), d)
                else
                  (case finalIds dto c of
                     Inl err \<Rightarrow> (Inl err, d)
                   | Inr ids \<Rightarrow>
                       (Inr (publicBooking newId dto (fst ids) (snd ids)),
                        d\<lparr>bookings :=
                             bookings d @ [publicBooking newId dto (fst ids) (snd ids)]\<rparr>))))"

section \<open>Statement vocabulary and example stores\<close>

text \<open>The \<open>HH:mm\<close> rendering of a number of minutes since midnight.\<close>

definition clockOfMinutes :: "int \<Rightarrow> string" where
  "clockOfMinutes m = clockString (m div 60) (m mod 60)"

text \<open>
  A block stops the slot that starts at the given hour and minute: it lacks a start or an
  end time, or the slot's minutes overlap its minutes.
\<close>

definition blockHitsSlot :: "int \<Rightarrow> int \<Rightarrow> courtAvailability \<Rightarrow> bool" where
  "blockHitsSlot hour minute k =
     (case caStartTime k of
        None \<Rightarrow> True
      | Some st \<Rightarrow>
          (case caEndTime k of
             None \<Rightarrow> True
           | Some en \<Rightarrow>
               hasOverlap (hour * 60 + minute) (hour * 60 + minute + 30)
                 (toMinutes st) (toMinutes en)))"

text \<open>
  Two different bookings of one court, both active, whose half-open intervals overlap.
\<close>

definition clash :: "booking \<Rightarrow> booking \<Rightarrow> bool" where
  "clash a b =
     (bId a \<noteq> bId b \<and> bCourtId a = bCourtId b \<and>
      activeStatus (bStatus a) \<and> activeStatus (bStatus b) \<and>
      overlaps (bStartTime a) (bEndTime a) (bStartTime b) (bEndTime b))"

definition doubleBooked :: "db \<Rightarrow> bool" where
  "doubleBooked d = list_ex (\<lambda>a. list_ex (clash a) (bookings d)) (bookings d)"

text \<open>
  A store with two courts and one client of the same owner, no booking and no block. Day
  19742 is 2024-01-20.
\<close>

definition seedDb :: db where
  "seedDb =
     \<lparr> courts = [\<lparr> courtId = ''c1'', courtComplexUserId = ''u1'', courtIsActive = True \<rparr>,
                 \<lparr> courtId = ''c2'', courtComplexUserId = ''u1'', courtIsActive = True \<rparr>],
       clients = [\<lparr> clientId = ''cl1'', clientUserId = ''u1'' \<rparr>],
       bookings = [],
       blocks = [] \<rparr>"

text \<open>Court c1 booked 14:00 to 15:00, and blocked 18:00 to 20:00 for maintenance.\<close>

definition afternoonDb :: db where
  "afternoonDb =
     seedDb\<lparr> bookings :=
                [\<lparr> bId = ''b1'', bCourtId = ''c1'', bUserId = ''u1'', bClientId = Some ''cl1'',
                   bBookingDate = instantOf 19742 0 0,
                   bStartTime = instantOf 19742 14 0, bEndTime = instantOf 19742 15 0,
                   bStatus = Pending, bPaymentStatus = PaymentPending \<rparr>],
             blocks :=
                [\<lparr> caId = ''k1'', caCourtId = ''c1'',
                   caStartDate = instantOf 19742 0 0, caEndDate = instantOf 19742 0 0,
                   caStartTime = Some (18, 0), caEndTime = Some (20, 0),
                   caReason = Maintenance, caIsActive = True \<rparr>] \<rparr>"

text \<open>Court c1 blocked from 00:00 to 01:00 on day 19742 only.\<close>

definition midnightDb :: db where
  "midnightDb =
     seedDb\<lparr> blocks :=
                [\<lparr> caId = ''k1'', caCourtId = ''c1'',
                   caStartDate = instantOf 19742 0 0, caEndDate = instantOf 19742 0 0,
                   caStartTime = Some (0, 0), caEndTime = Some (1, 0),
                   caReason = Maintenance, caIsActive = True \<rparr>] \<rparr>"

text \<open>
  Court c1 blocked with no time bounds from 2024-01-20 at 10:00 to 2024-01-25: the start
  date carries a time of day.
\<close>

definition lateStartDb :: db where
  "lateStartDb =
     seedDb\<lparr> blocks :=
                [\<lparr> caId = ''k1'', caCourtId = ''c1'',
                   caStartDate = instantOf 19742 10 0, caEndDate = instantOf 19747 0 0,
                   caStartTime = None, caEndTime = None,
                   caReason = Maintenance, caIsActive = True \<rparr>] \<rparr>"

text \<open>
  Court c1 blocked for maintenance from 2024-01-20 to 2024-01-25 with no time bounds.
\<close>

definition maintenanceRow :: courtAvailability where
  "maintenanceRow =
     \<lparr> caId = ''k1'', caCourtId = ''c1'',
       caStartDate = instantOf 19742 0 0, caEndDate = instantOf 19747 0 0,
       caStartTime = None, caEndTime = None,
       caReason = Maintenance, caIsActive = True \<rparr>"

definition maintenanceDb :: db where
  "maintenanceDb = seedDb\<lparr> blocks := [maintenanceRow] \<rparr>"

text \<open>Court c1 with one booking from 06:10 to 06:20, inside the first slot of the day.\<close>

definition shortBooking :: booking where
  "shortBooking =
     \<lparr> bId = ''b1'', bCourtId = ''c1'', bUserId = ''u1'', bClientId = Some ''cl1'',
       bBookingDate = instantOf 19742 0 0,
       bStartTime = instantOf 19742 6 10, bEndTime = instantOf 19742 6 20,
       bStatus = Confirmed, bPaymentStatus = PaymentPending \<rparr>"

definition shortBookingDb :: db where
  "shortBookingDb = seedDb\<lparr> bookings := [shortBooking] \<rparr>"

text \<open>Requests used below.\<close>

definition bookC1 :: createBookingDto where
  "bookC1 =
     \<lparr> dtoBookingDate = instantOf 19742 0 0,
       dtoStartTime = instantOf 19742 14 0, dtoEndTime = instantOf 19742 15 0,
       dtoStatus = None, dtoPaymentStatus = None,
       dtoCourtId = ''c1'', dtoClientId = ''cl1'' \<rparr>"

definition bookC2 :: createBookingDto where
  "bookC2 = bookC1\<lparr> dtoCourtId := ''c2'' \<rparr>"

definition bookC1Confirmed :: createBookingDto where
  "bookC1Confirmed = bookC1\<lparr> dtoStatus := Some Confirmed, dtoPaymentStatus := Some Paid \<rparr>"

definition noChange :: updateBookingDto where
  "noChange =
     \<lparr> updBookingDate = None, updStartTime = None, updEndTime = None, updStatus = None,
       updPaymentStatus = None, updCourtId = None, updClientId = None \<rparr>"

definition moveToC1 :: updateBookingDto where
  "moveToC1 =
     noChange\<lparr> updStartTime := Some (instantOf 19742 14 0),
               updEndTime := Some (instantOf 19742 15 0),
               updCourtId := Some ''c1'' \<rparr>"

definition appBooking :: createPublicBookingDto where
  "appBooking =
     \<lparr> pubCourtId = ''c1'', pubDate = instantOf 19742 0 0,
       pubStartTime = (14, 0), pubEndTime = (15, 0),
       pubIsAppNative = True, pubUserId = Some ''u7'', pubClientId = None \<rparr>"

definition weekBlock :: createCourtAvailabilityDto where
  "weekBlock =
     \<lparr> cadCourtId = ''c1'',
       cadStartDate = instantOf 19742 0 0, cadEndDate = instantOf 19747 0 0,
       cadStartTime = Some (14, 0), cadEndTime = Some (18, 0),
       cadReason = Maintenance \<rparr>"

definition noBlockChange :: updateCourtAvailabilityDto where
  "noBlockChange =
     \<lparr> uadStartDate = None, uadEndDate = None, uadStartTime = Omitted, uadEndTime = Omitted,
       uadReason = None \<rparr>"

definition endBeforeStart :: updateCourtAvailabilityDto where
  "endBeforeStart = noBlockChange\<lparr> uadEndDate := Some (instantOf 19732 0 0) \<rparr>"

definition startAfterEnd :: updateCourtAvailabilityDto where
  "startAfterEnd = noBlockChange\<lparr> uadStartTime := Given (19, 0) \<rparr>"

definition clearEndTime :: updateCourtAvailabilityDto where
  "clearEndTime = noBlockChange\<lparr> uadEndTime := ExplicitNull \<rparr>"

text \<open>
  Court c1 with a pending booking already paid and a completed one.
\<close>

definition paidBooking :: booking where
  "paidBooking =
     \<lparr> bId = ''b1'', bCourtId = ''c1'', bUserId = ''u1'', bClientId = Some ''cl1'',
       bBookingDate = instantOf 19742 0 0,
       bStartTime = instantOf 19742 14 0, bEndTime = instantOf 19742 15 0,
       bStatus = Pending, bPaymentStatus = Paid \<rparr>"

definition completedBooking :: booking where
  "completedBooking =
     \<lparr> bId = ''b2'', bCourtId = ''c1'', bUserId = ''u1'', bClientId = Some ''cl1'',
       bBookingDate = instantOf 19741 0 0,
       bStartTime = instantOf 19741 14 0, bEndTime = instantOf 19741 15 0,
       bStatus = Completed, bPaymentStatus = Paid \<rparr>"

definition paidDb :: db where
  "paidDb = seedDb\<lparr> bookings := [paidBooking, completedBooking] \<rparr>"

text \<open>The stores after booking court c1, and then court c2, from 14:00 to 15:00.\<close>

definition oneBookingDb :: db where
  "oneBookingDb = seedDb\<lparr> bookings := [createdBooking ''b1'' ''u1'' bookC1] \<rparr>"

definition twoBookingsDb :: db where
  "twoBookingsDb =
     seedDb\<lparr> bookings := [createdBooking ''b1'' ''u1'' bookC1, createdBooking ''b2'' ''u1'' bookC2] \<rparr>"

definition bookC1Later :: createBookingDto where
  "bookC1Later =
     bookC1\<lparr> dtoStartTime := instantOf 19742 15 0, dtoEndTime := instantOf 19742 16 0 \<rparr>"

definition bookC1Straddling :: createBookingDto where
  "bookC1Straddling =
     bookC1\<lparr> dtoStartTime := instantOf 19742 14 30, dtoEndTime := instantOf 19742 15 30 \<rparr>"

text \<open>The blackout-only check of the public path on the request's day and times.\<close>

definition publicCheck :: "db \<Rightarrow> createPublicBookingDto \<Rightarrow> availabilityCheck" where
  "publicCheck d dto =
     CourtAvailabilityService_checkAvailability d (pubCourtId dto) (pubDate dto)
       (pubStartTime dto) (pubEndTime dto)"

text \<open>The active bookings of the court that the public path finds in conflict.\<close>

definition publicConflicts :: "db \<Rightarrow> createPublicBookingDto \<Rightarrow> booking list" where
  "publicConflicts d dto =
     filter (\<lambda>b. bCourtId b = pubCourtId dto \<and> activeStatus (bStatus b) \<and>
                 conflictsWith
                   (setHours (pubDate dto) (fst (pubStartTime dto)) (snd (pubStartTime dto)) 0 0)
                   (setHours (pubDate dto) (fst (pubEndTime dto)) (snd (pubEndTime dto)) 0 0) b)
       (bookings d)"

text \<open>The row and the store after the block \<open>weekBlock\<close> is created on the seed store.\<close>

definition weekRow :: courtAvailability where
  "weekRow =
     \<lparr> caId = ''k1'', caCourtId = ''c1'',
       caStartDate = instantOf 19742 0 0, caEndDate = instantOf 19747 0 0,
       caStartTime = Some (14, 0), caEndTime = Some (18, 0),
       caReason = Maintenance, caIsActive = True \<rparr>"

definition weekDb :: db where
  "weekDb = seedDb\<lparr> blocks := [weekRow] \<rparr>"

text \<open>
  The safety invariant of the store: booking ids are unique, every booking ends after it
  starts, and no court holds two overlapping active bookings.
\<close>

definition storeSafe :: "db \<Rightarrow> bool" where
  "storeSafe d =
     (distinct (map bId (bookings d)) \<and> list_all bookingWellFormed (bookings d) \<and>
      doubleBooked d = False)"

text \<open>
  Court c1 with a cancelled booking from 14:00 to 15:00 and a later active booking of the
  same times.
\<close>

definition rebookedDb :: db where
  "rebookedDb =
     seedDb\<lparr> bookings :=
                [(createdBooking ''b1'' ''u1'' bookC1)\<lparr> bStatus := Cancelled \<rparr>,
                 createdBooking ''b2'' ''u1'' bookC1] \<rparr>"

definition reactivate :: updateBookingDto where
  "reactivate = noChange\<lparr> updStatus := Some Confirmed \<rparr>"

section \<open>Properties of the overlap test\<close>

text \<open>
  Claim C3. For proper intervals (\<open>aStart < aEnd\<close> and \<open>bStart < bEnd\<close>) the three-case
  disjunction of the source is the symmetric half-open test
  \<open>aStart < bEnd \<and> bStart < aEnd\<close>.
\<close>

theorem hasOverlap_iff_overlaps:
  assumes "aStart < aEnd" and "bStart < bEnd"
  shows "hasOverlap bStart bEnd aStart aEnd = overlaps aStart aEnd bStart bEnd"
proof
  assume "hasOverlap bStart bEnd aStart aEnd"
  then consider
      (starts_inside) "bStart \<ge> aStart" "bStart < aEnd"
    | (ends_inside) "bEnd > aStart" "bEnd \<le> aEnd"
    | (contains) "bStart \<le> aStart" "bEnd \<ge> aEnd"
    unfolding hasOverlap_def by blast
  then show "overlaps aStart aEnd bStart bEnd"
  proof cases
    case starts_inside
    with assms show ?thesis unfolding overlaps_def by linarith
  next
    case ends_inside
    with assms show ?thesis unfolding overlaps_def by linarith
  next
    case contains
    with assms show ?thesis unfolding overlaps_def by linarith
  qed
next
  assume "overlaps aStart aEnd bStart bEnd"
  then have lt: "aStart < bEnd" "bStart < aEnd"
    unfolding overlaps_def by simp_all
  show "hasOverlap bStart bEnd aStart aEnd"
  proof (cases "bStart \<ge> aStart")
    case True
    with lt show ?thesis unfolding hasOverlap_def by simp
  next
    case False
    then show ?thesis
    proof (cases "bEnd \<ge> aEnd")
      case True
      with \<open>\<not> bStart \<ge> aStart\<close> show ?thesis unfolding hasOverlap_def by simp
    next
      case False
      with lt show ?thesis unfolding hasOverlap_def by simp
    qed
  qed
qed

theorem hasOverlap_iff_overlaps_witness:
  "(840::int) < 900 \<and> (870::int) < 930 \<and>
   hasOverlap 870 930 840 900 = overlaps 840 900 870 930 \<and> overlaps 840 900 870 930"
proof -
  have a: "(840::int) < 900" and b: "(870::int) < 930" by simp_all
  show ?thesis
    using hasOverlap_iff_overlaps [OF a b] by (simp add: overlaps_def)
qed

lemmas time_defs = instantOf_def msPerDay_def msPerHour_def msPerMinute_def
  setHours_def getHours_def getMinutes_def addMinutes_def toMinutes_def

lemmas resolver_defs = checkTimeSlotAvailability_def conflictingBookings_def
  activeBlocks_def conflictsWith_def notExcluded_def activeStatus_def hasOverlap_def

section \<open>Properties of the conflict resolver\<close>

lemma hasOverlap_overlaps:
  "aStart < aEnd \<Longrightarrow> bStart < bEnd \<Longrightarrow>
   hasOverlap bStart bEnd aStart aEnd = overlaps aStart aEnd bStart bEnd"
  unfolding hasOverlap_def overlaps_def by auto

lemma conflictsWith_hasOverlap:
  "conflictsWith s e b = hasOverlap s e (bStartTime b) (bEndTime b)"
  unfolding conflictsWith_def hasOverlap_def by auto

lemma conflictsWith_overlaps:
  "s < e \<Longrightarrow> bookingWellFormed b \<Longrightarrow>
   conflictsWith s e b = overlaps (bStartTime b) (bEndTime b) s e"
  unfolding bookingWellFormed_def
  by (simp add: conflictsWith_hasOverlap hasOverlap_overlaps)

lemma filter_nonempty_list_ex: "(length (filter P xs) > 0) = list_ex P xs"
  by (induction xs) auto

lemma list_ex_filter: "list_ex Q (filter P xs) = list_ex (\<lambda>x. P x \<and> Q x) xs"
  by (induction xs) auto

lemma conflicting_iff:
  assumes "s < e" and "list_all bookingWellFormed (bookings d)"
  shows "(length (conflictingBookings d cid s e excl) > 0) = bookingOverlapExists d cid s e excl"
proof -
  have "list_ex (\<lambda>b. bCourtId b = cid \<and> activeStatus (bStatus b) \<and>
                 conflictsWith s e b \<and> notExcluded excl b) (bookings d)
        = list_ex (\<lambda>b. bCourtId b = cid \<and> activeStatus (bStatus b) \<and> notExcluded excl b \<and>
                  overlaps (bStartTime b) (bEndTime b) s e) (bookings d)"
    using assms(2) conflictsWith_overlaps [OF assms(1)]
    by (auto simp: list_ex_iff list_all_iff)
  then show ?thesis
    unfolding conflictingBookings_def bookingOverlapExists_def
    by (simp only: filter_nonempty_list_ex)
qed

lemma blocksAllow_iff:
  assumes "rs < re" and "list_all blockWellFormed blks"
  shows "blocksAllow rs re blks = (\<not> list_ex (\<lambda>k. blockCovers k rs re) blks)"
  using assms(2)
proof (induction blks)
  case Nil
  then show ?case by simp
next
  case (Cons k blks)
  then show ?case
    using hasOverlap_overlaps [OF _ assms(1)]
    by (auto simp: blockCovers_def blockWellFormed_def split: option.splits)
qed

text \<open>
  The code compares the stored instants with the start of the candidate's day. For the end
  date that is the same as comparing calendar days; for the start date it is the same
  only when the start date carries no time of day.
\<close>

lemma startOfDay_dayOf: "setHours s 0 0 0 0 = dayOf s * msPerDay"
  by (simp add: setHours_def dayOf_def minus_mod_eq_div_mult)

lemma day_floor_le:
  fixes x c D :: int
  assumes "0 < D"
  shows "(x div D * D \<le> c) = (x div D \<le> c div D)"
proof
  assume "x div D * D \<le> c"
  then have "(x div D * D) div D \<le> c div D"
    using assms by (rule zdiv_mono1)
  with assms show "x div D \<le> c div D" by simp
next
  assume "x div D \<le> c div D"
  with assms have "x div D * D \<le> c div D * D" by simp
  also have "c div D * D \<le> c"
    using assms by (simp add: minus_mod_eq_div_mult [symmetric])
  finally show "x div D * D \<le> c" .
qed

lemma end_date_by_day:
  "(setHours s 0 0 0 0 \<le> caEndDate k) = (dayOf s \<le> dayOf (caEndDate k))"
  unfolding startOfDay_dayOf dayOf_def
  by (rule day_floor_le) (simp add: msPerDay_def)

lemma start_date_by_day:
  assumes "startsOnDayBoundary k"
  shows "(caStartDate k \<le> setHours s 0 0 0 0) = (dayOf (caStartDate k) \<le> dayOf s)"
proof -
  from assms have "caStartDate k = dayOf (caStartDate k) * msPerDay"
    by (simp add: startsOnDayBoundary_def dayOf_def minus_mod_eq_div_mult [symmetric])
  then have "(caStartDate k \<le> setHours s 0 0 0 0) =
      (dayOf (caStartDate k) * msPerDay \<le> dayOf s * msPerDay)"
    by (simp add: startOfDay_dayOf)
  also have "\<dots> = (dayOf (caStartDate k) \<le> dayOf s)"
    by (simp add: msPerDay_def)
  finally show ?thesis .
qed

lemma activeBlocks_by_day:
  assumes "list_all startsOnDayBoundary (blocks d)"
  shows "activeBlocks d cid (setHours s 0 0 0 0) =
         filter (\<lambda>k. caCourtId k = cid \<and> caIsActive k \<and>
                     dayOf (caStartDate k) \<le> dayOf s \<and> dayOf s \<le> dayOf (caEndDate k))
           (blocks d)"
  unfolding activeBlocks_def
proof (rule filter_cong [OF refl])
  fix k
  assume "k \<in> set (blocks d)"
  with assms have "startsOnDayBoundary k" by (simp add: list_all_iff)
  then show "(caCourtId k = cid \<and> caIsActive k \<and> caStartDate k \<le> setHours s 0 0 0 0 \<and>
              caEndDate k \<ge> setHours s 0 0 0 0) =
             (caCourtId k = cid \<and> caIsActive k \<and>
              dayOf (caStartDate k) \<le> dayOf s \<and> dayOf s \<le> dayOf (caEndDate k))"
    by (simp add: start_date_by_day end_date_by_day)
qed

text \<open>
  Claim C2, as amended. For a candidate with \<open>s < e\<close> whose end time of day is later than
  its start time of day, on a store whose bookings have \<open>endTime > startTime\<close>, whose
  timed blocks have end minutes after start minutes and whose blocks' start dates carry
  no time of day, the availability check returns false exactly when an active booking of
  the court (other than the excluded one) overlaps \<open>[s, e)\<close>, or an active block whose
  inclusive range of calendar days holds the candidate's day lacks a start or an end time
  or overlaps the candidate's minutes since midnight.
\<close>

theorem checkTimeSlotAvailability_iff:
  assumes "s < e"
    and "minutesSinceMidnight s < minutesSinceMidnight e"
    and "list_all bookingWellFormed (bookings d)"
    and "list_all blockWellFormed (blocks d)"
    and "list_all startsOnDayBoundary (blocks d)"
  shows "checkTimeSlotAvailability d cid s e excl = (\<not> specUnavailable d cid s e excl)"
proof (cases "bookingOverlapExists d cid s e excl")
  case True
  then show ?thesis
    using conflicting_iff [OF assms(1) assms(3), of cid excl]
    by (simp add: checkTimeSlotAvailability_def specUnavailable_def)
next
  case False
  let ?day = "setHours s 0 0 0 0"
  let ?blks = "activeBlocks d cid ?day"
  have wf: "list_all blockWellFormed ?blks"
    using assms(4) unfolding activeBlocks_def by (simp add: list_all_iff)
  have allow: "blocksAllow (minutesSinceMidnight s) (minutesSinceMidnight e) ?blks
      = (\<not> blackoutExists d cid s e)"
    using blocksAllow_iff [OF assms(2) wf]
    unfolding blackoutExists_def activeBlocks_by_day [OF assms(5)]
    by (simp add: list_ex_filter)
  have none: "\<not> length (conflictingBookings d cid s e excl) > 0"
    using False conflicting_iff [OF assms(1) assms(3), of cid excl] by simp
  show ?thesis
  proof (cases "length ?blks = 0")
    case True
    then have "blocksAllow (minutesSinceMidnight s) (minutesSinceMidnight e) ?blks"
      by simp
    with allow True none False show ?thesis
      by (simp add: checkTimeSlotAvailability_def specUnavailable_def)
  next
    case nonempty: False
    with allow none False show ?thesis
      by (simp add: checkTimeSlotAvailability_def specUnavailable_def Let_def
            minutesSinceMidnight_def)
  qed
qed

theorem checkTimeSlotAvailability_iff_witness:
  "instantOf 19742 15 0 < instantOf 19742 16 0 \<and>
   minutesSinceMidnight (instantOf 19742 15 0) < minutesSinceMidnight (instantOf 19742 16 0) \<and>
   list_all bookingWellFormed (bookings afternoonDb) \<and>
   list_all blockWellFormed (blocks afternoonDb) \<and>
   list_all startsOnDayBoundary (blocks afternoonDb) \<and>
   checkTimeSlotAvailability afternoonDb ''c1'' (instantOf 19742 15 0) (instantOf 19742 16 0) None
     = (\<not> specUnavailable afternoonDb ''c1'' (instantOf 19742 15 0) (instantOf 19742 16 0) None) \<and>
   specUnavailable afternoonDb ''c1'' (instantOf 19742 15 0) (instantOf 19742 16 0) None = False \<and>
   checkTimeSlotAvailability afternoonDb ''c1'' (instantOf 19742 19 0) (instantOf 19742 20 0) None
     = (\<not> specUnavailable afternoonDb ''c1'' (instantOf 19742 19 0) (instantOf 19742 20 0) None) \<and>
   specUnavailable afternoonDb ''c1'' (instantOf 19742 19 0) (instantOf 19742 20 0) None = True"
proof -
  have h1: "instantOf 19742 15 0 < instantOf 19742 16 0"
    by (simp add: time_defs)
  have h2: "minutesSinceMidnight (instantOf 19742 15 0) < minutesSinceMidnight (instantOf 19742 16 0)"
    by (simp add: minutesSinceMidnight_def time_defs)
  have h3: "list_all bookingWellFormed (bookings afternoonDb)"
    by (simp add: afternoonDb_def seedDb_def bookingWellFormed_def time_defs)
  have h4: "list_all blockWellFormed (blocks afternoonDb)"
    by (simp add: afternoonDb_def seedDb_def blockWellFormed_def time_defs)
  have h5: "list_all startsOnDayBoundary (blocks afternoonDb)"
    by (simp add: afternoonDb_def seedDb_def startsOnDayBoundary_def time_defs)
  have g1: "instantOf 19742 19 0 < instantOf 19742 20 0"
    by (simp add: time_defs)
  have g2: "minutesSinceMidnight (instantOf 19742 19 0) < minutesSinceMidnight (instantOf 19742 20 0)"
    by (simp add: minutesSinceMidnight_def time_defs)
  have free: "specUnavailable afternoonDb ''c1'' (instantOf 19742 15 0) (instantOf 19742 16 0) None = False"
    by (simp add: afternoonDb_def seedDb_def specUnavailable_def bookingOverlapExists_def
          blackoutExists_def blockCovers_def overlaps_def minutesSinceMidnight_def
          notExcluded_def activeStatus_def dayOf_def time_defs)
  have blocked: "specUnavailable afternoonDb ''c1'' (instantOf 19742 19 0) (instantOf 19742 20 0) None = True"
    by (simp add: afternoonDb_def seedDb_def specUnavailable_def bookingOverlapExists_def
          blackoutExists_def blockCovers_def overlaps_def minutesSinceMidnight_def
          notExcluded_def activeStatus_def dayOf_def time_defs)
  show ?thesis
    using h1 h2 h3 h4 h5 free blocked
      checkTimeSlotAvailability_iff [OF h1 h2 h3 h4 h5, of "''c1''" None]
      checkTimeSlotAvailability_iff [OF g1 g2 h3 h4 h5, of "''c1''" None]
    by simp
qed

text \<open>
  Claim C2 as stated fails in two ways. A candidate that crosses midnight, 23:00 to 00:30
  of the next day, has minutes \<open>[1380, 30)\<close>, which overlap no interval, yet the code's
  three-case test finds the block 00:00 to 01:00 of the first day and reports the court
  unavailable. And a block with no time bounds whose start date is 2024-01-20 at 10:00
  holds the day 2024-01-20 in its date range, yet the code compares the start date with
  the start of the candidate's day, does not find the block, and reports 12:00 to 13:00
  of that day available.
\<close>

theorem checkTimeSlotAvailability_counterexample:
  "instantOf 19742 23 0 < instantOf 19743 0 30 \<and>
   checkTimeSlotAvailability midnightDb ''c1'' (instantOf 19742 23 0) (instantOf 19743 0 30) None = False \<and>
   specUnavailable midnightDb ''c1'' (instantOf 19742 23 0) (instantOf 19743 0 30) None = False \<and>
   instantOf 19742 12 0 < instantOf 19742 13 0 \<and>
   checkTimeSlotAvailability lateStartDb ''c1'' (instantOf 19742 12 0) (instantOf 19742 13 0) None = True \<and>
   specUnavailable lateStartDb ''c1'' (instantOf 19742 12 0) (instantOf 19742 13 0) None = True"
proof (intro conjI)
  show "instantOf 19742 23 0 < instantOf 19743 0 30"
    by (simp add: time_defs)
  show "checkTimeSlotAvailability midnightDb ''c1'' (instantOf 19742 23 0) (instantOf 19743 0 30) None = False"
    by (simp add: midnightDb_def seedDb_def resolver_defs time_defs)
  show "specUnavailable midnightDb ''c1'' (instantOf 19742 23 0) (instantOf 19743 0 30) None = False"
    by (simp add: midnightDb_def seedDb_def specUnavailable_def bookingOverlapExists_def
          blackoutExists_def blockCovers_def overlaps_def minutesSinceMidnight_def
          dayOf_def time_defs)
  show "instantOf 19742 12 0 < instantOf 19742 13 0"
    by (simp add: time_defs)
  show "checkTimeSlotAvailability lateStartDb ''c1'' (instantOf 19742 12 0) (instantOf 19742 13 0) None = True"
    by (simp add: lateStartDb_def seedDb_def resolver_defs time_defs)
  show "specUnavailable lateStartDb ''c1'' (instantOf 19742 12 0) (instantOf 19742 13 0) None = True"
    by (simp add: lateStartDb_def seedDb_def specUnavailable_def bookingOverlapExists_def
          blackoutExists_def blockCovers_def overlaps_def minutesSinceMidnight_def
          dayOf_def time_defs)
qed

text \<open>
  The boundary cases: with court c1 booked 14:00 to 15:00, the candidate 15:00 to 16:00 is
  available and the candidate 14:30 to 15:30 is not; a booking that ends where the
  candidate starts, or starts where it ends, never conflicts.
\<close>

lemma back_to_back_available:
  "checkTimeSlotAvailability afternoonDb ''c1'' (instantOf 19742 15 0) (instantOf 19742 16 0) None"
  by (simp add: afternoonDb_def seedDb_def resolver_defs time_defs)

lemma straddling_unavailable:
  "\<not> checkTimeSlotAvailability afternoonDb ''c1'' (instantOf 19742 14 30) (instantOf 19742 15 30) None"
  by (simp add: afternoonDb_def seedDb_def resolver_defs time_defs)

lemma ends_at_start_no_conflict: "bEndTime b = s \<Longrightarrow> s < e \<Longrightarrow> bStartTime b < bEndTime b \<Longrightarrow> \<not> conflictsWith s e b"
  unfolding conflictsWith_def by auto

lemma starts_at_end_no_conflict: "bStartTime b = e \<Longrightarrow> s < e \<Longrightarrow> bStartTime b < bEndTime b \<Longrightarrow> \<not> conflictsWith s e b"
  unfolding conflictsWith_def by auto

section \<open>Properties of slot projection\<close>

lemma slotLoop_step:
  "slotLoop bs cur (cur + int (Suc n) * (30 * msPerMinute)) =
   slotAt bs cur #
   slotLoop bs (cur + 30 * msPerMinute) ((cur + 30 * msPerMinute) + int n * (30 * msPerMinute))"
  by (subst slotLoop.simps) (simp add: addMinutes_def msPerMinute_def add.assoc)

lemma slotLoop_map:
  "slotLoop bs cur (cur + int n * (30 * msPerMinute)) =
   map (\<lambda>i. slotAt bs (cur + int i * (30 * msPerMinute))) [0..<n]"
proof (induction n arbitrary: cur)
  case 0
  show ?case by (subst slotLoop.simps) simp
next
  case (Suc n)
  have "map (\<lambda>i. slotAt bs (cur + int i * (30 * msPerMinute))) [0..<Suc n]
      = slotAt bs cur # map (\<lambda>i. slotAt bs (cur + int i * (30 * msPerMinute))) (map Suc [0..<n])"
    by (simp only: map_Suc_upt upt_conv_Cons [of 0 "Suc n"]) simp
  also have "\<dots> = slotAt bs cur #
      map (\<lambda>i. slotAt bs ((cur + 30 * msPerMinute) + int i * (30 * msPerMinute))) [0..<n]"
    by (simp add: comp_def algebra_simps)
  finally show ?case
    using Suc.IH [of "cur + 30 * msPerMinute"] by (simp only: slotLoop_step)
qed

lemma dayEnd_from_dayStart:
  "setHours date 23 0 0 0 = setHours date 6 0 0 0 + int 34 * (30 * msPerMinute)"
  by (simp add: setHours_def msPerHour_def msPerMinute_def)

lemma dashboard_slots:
  "resSlots (BookingsService_getAvailableSlots d cid date) =
   map (\<lambda>i. slotAt (dayBookings d cid date) (setHours date 6 0 0 0 + int i * (30 * msPerMinute)))
     [0..<34]"
  unfolding BookingsService_getAvailableSlots_def
  by (simp only: slotsResult.simps dayEnd_from_dayStart slotLoop_map)

lemma dashboard_slot_nth:
  "k < 34 \<Longrightarrow>
   resSlots (BookingsService_getAvailableSlots d cid date) ! k =
   slotAt (dayBookings d cid date) (addMinutes (setHours date 6 0 0 0) (30 * int k))"
  by (simp add: dashboard_slots addMinutes_def mult_ac del: upt_Suc)

lemma two_digits:
  assumes "0 \<le> n" and "n < 100"
  shows "padStart2 (numberToString n) = [digitChar (n div 10), digitChar (n mod 10)]"
proof (cases "n < 10")
  case True
  with assms have "n div 10 = 0" and "n mod 10 = n" by simp_all
  with True show ?thesis
    by (simp add: numberToString.simps [of n] padStart2_def digitChar_def)
next
  case False
  with assms have "n div 10 < 10" by simp
  with False show ?thesis
    by (simp add: numberToString.simps [of n] numberToString.simps [of "n div 10"] padStart2_def)
qed

lemma hours_list: "[6..22] = [6, 7, 8, 9, 10, 11, 12, 13, 14, 15, 16, 17, 18, 19, 20, 21, 22::int]"
  by simp

lemma indices_list:
  "[0..<34] = [0, 1, 2, 3, 4, 5, 6, 7, 8, 9, 10, 11, 12, 13, 14, 15, 16, 17, 18, 19, 20, 21,
               22, 23, 24, 25, 26, 27, 28, 29, 30, 31, 32, 33::nat]"
  by (simp add: upt_conv_Cons del: upt_Suc)

lemma publicSlots_length: "length (publicSlots date bs blks) = 34"
  unfolding publicSlots_def hours_list by simp

lemma publicSlots_times:
  "map (\<lambda>s. (psStartTime s, psEndTime s)) (publicSlots date bs blks) =
   map (\<lambda>i. (clockOfMinutes (360 + 30 * int i), clockOfMinutes (390 + 30 * int i))) [0..<34]"
  unfolding publicSlots_def hours_list indices_list
  by (simp add: publicSlotAt_def Let_def clockOfMinutes_def clockString_def two_digits)

text \<open>
  Claim C5. Both listings produce 34 slots of 30 minutes that tile 06:00 to 23:00: slot
  \<open>i\<close> runs from 06:00 plus \<open>30 i\<close> minutes to 06:00 plus \<open>30 (i + 1)\<close> minutes, so each slot
  starts where the one before ends, and the last one ends at 23:00. The public listing
  fails only for a court that does not exist.
\<close>

theorem slot_projection_tiles_window:
  "map (\<lambda>s. (slotStartTime s, slotEndTime s))
     (resSlots (BookingsService_getAvailableSlots d cid date)) =
   map (\<lambda>i. (addMinutes (setHours date 6 0 0 0) (30 * int i),
             addMinutes (setHours date 6 0 0 0) (30 * (int i + 1)))) [0..<34] \<and>
   addMinutes (setHours date 6 0 0 0) (30 * 34) = setHours date 23 0 0 0 \<and>
   (case PublicCourtsController_getAvailableSlots d cid date of
      Inl err \<Rightarrow> findCourt d cid = None
    | Inr r \<Rightarrow>
        prTotalSlots r = 34 \<and>
        map (\<lambda>s. (psStartTime s, psEndTime s)) (prSlots r) =
        map (\<lambda>i. (clockOfMinutes (360 + 30 * int i), clockOfMinutes (390 + 30 * int i))) [0..<34])"
proof (intro conjI)
  show "map (\<lambda>s. (slotStartTime s, slotEndTime s))
     (resSlots (BookingsService_getAvailableSlots d cid date)) =
   map (\<lambda>i. (addMinutes (setHours date 6 0 0 0) (30 * int i),
             addMinutes (setHours date 6 0 0 0) (30 * (int i + 1)))) [0..<34]"
    unfolding dashboard_slots
    by (simp add: slotAt_def Let_def addMinutes_def comp_def algebra_simps del: upt_Suc)
  show "addMinutes (setHours date 6 0 0 0) (30 * 34) = setHours date 23 0 0 0"
    by (simp add: addMinutes_def setHours_def msPerHour_def msPerMinute_def)
  show "case PublicCourtsController_getAvailableSlots d cid date of
      Inl err \<Rightarrow> findCourt d cid = None
    | Inr r \<Rightarrow>
        prTotalSlots r = 34 \<and>
        map (\<lambda>s. (psStartTime s, psEndTime s)) (prSlots r) =
        map (\<lambda>i. (clockOfMinutes (360 + 30 * int i), clockOfMinutes (390 + 30 * int i))) [0..<34]"
  proof (cases "findCourt d cid")
    case None
    then show ?thesis by (simp add: PublicCourtsController_getAvailableSlots_def)
  next
    case (Some c)
    then show ?thesis
      by (simp add: PublicCourtsController_getAvailableSlots_def Let_def
            publicSlots_length publicSlots_times del: upt_Suc)
  qed
qed


theorem slot_projection_tiles_window_witness:
  "map (\<lambda>s. (slotStartTime s, slotEndTime s))
     (resSlots (BookingsService_getAvailableSlots afternoonDb ''c1'' (instantOf 19742 9 15))) ! 0
     = (instantOf 19742 6 0, instantOf 19742 6 30) \<and>
   map (\<lambda>s. (slotStartTime s, slotEndTime s))
     (resSlots (BookingsService_getAvailableSlots afternoonDb ''c1'' (instantOf 19742 9 15))) ! 33
     = (instantOf 19742 22 30, instantOf 19742 23 0) \<and>
   map_sum id (\<lambda>r. (prTotalSlots r, map (\<lambda>s. (psStartTime s, psEndTime s)) (prSlots r) ! 0,
                   map (\<lambda>s. (psStartTime s, psEndTime s)) (prSlots r) ! 33))
     (PublicCourtsController_getAvailableSlots afternoonDb ''c1'' (instantOf 19742 9 15))
     = Inr (34, (''06:00'', ''06:30''), (''22:30'', ''23:00''))"
proof -
  note tiles = slot_projection_tiles_window [of afternoonDb "''c1''" "instantOf 19742 9 15"]
  have found: "findCourt afternoonDb ''c1'' \<noteq> None"
    by (simp add: findCourt_def afternoonDb_def seedDb_def)
  have first: "(clockOfMinutes (360 + 30 * int 0), clockOfMinutes (390 + 30 * int 0))
      = (''06:00'', ''06:30'')"
    by (simp add: clockOfMinutes_def clockString_def two_digits digitChar_def)
  have last: "(clockOfMinutes (360 + 30 * int 33), clockOfMinutes (390 + 30 * int 33))
      = (''22:30'', ''23:00'')"
    by (simp add: clockOfMinutes_def clockString_def two_digits digitChar_def)
  have dash0: "map (\<lambda>s. (slotStartTime s, slotEndTime s))
     (resSlots (BookingsService_getAvailableSlots afternoonDb ''c1'' (instantOf 19742 9 15))) ! 0
     = (instantOf 19742 6 0, instantOf 19742 6 30)"
    using tiles by (simp add: time_defs del: upt_Suc)
  have dash33: "map (\<lambda>s. (slotStartTime s, slotEndTime s))
     (resSlots (BookingsService_getAvailableSlots afternoonDb ''c1'' (instantOf 19742 9 15))) ! 33
     = (instantOf 19742 22 30, instantOf 19742 23 0)"
    using tiles by (simp add: time_defs del: upt_Suc)
  have pub: "map_sum id (\<lambda>r. (prTotalSlots r, map (\<lambda>s. (psStartTime s, psEndTime s)) (prSlots r) ! 0,
                   map (\<lambda>s. (psStartTime s, psEndTime s)) (prSlots r) ! 33))
     (PublicCourtsController_getAvailableSlots afternoonDb ''c1'' (instantOf 19742 9 15))
     = Inr (34, (''06:00'', ''06:30''), (''22:30'', ''23:00''))"
  proof (cases "PublicCourtsController_getAvailableSlots afternoonDb ''c1'' (instantOf 19742 9 15)")
    case (Inl err)
    with tiles found show ?thesis by simp
  next
    case (Inr r)
    with tiles have "prTotalSlots r = 34"
      and times: "map (\<lambda>s. (psStartTime s, psEndTime s)) (prSlots r) =
        map (\<lambda>i. (clockOfMinutes (360 + 30 * int i), clockOfMinutes (390 + 30 * int i))) [0..<34]"
      by simp_all
    moreover have "map (\<lambda>s. (psStartTime s, psEndTime s)) (prSlots r) ! 0 = (''06:00'', ''06:30'')"
      unfolding times using first by (simp del: upt_Suc)
    moreover have "map (\<lambda>s. (psStartTime s, psEndTime s)) (prSlots r) ! 33 = (''22:30'', ''23:00'')"
      unfolding times using last by (simp del: upt_Suc)
    ultimately show ?thesis using Inr by simp
  qed
  from dash0 dash33 pub show ?thesis by simp
qed

text \<open>
  Read slot by slot: the dashboard listing starts at 06:00, every slot lasts 30 minutes
  and ends where the next one starts, and the last slot ends at 23:00.
\<close>

lemma dashboard_slots_contiguous:
  assumes "i < 33"
  shows "slotEndTime (resSlots (BookingsService_getAvailableSlots d cid date) ! i) =
         slotStartTime (resSlots (BookingsService_getAvailableSlots d cid date) ! Suc i)"
  using assms by (simp add: dashboard_slot_nth slotAt_def Let_def addMinutes_def algebra_simps)

lemma dashboard_slots_bounds:
  "slotStartTime (resSlots (BookingsService_getAvailableSlots d cid date) ! 0) =
     setHours date 6 0 0 0"
  "slotEndTime (resSlots (BookingsService_getAvailableSlots d cid date) ! 33) =
     setHours date 23 0 0 0"
  "k < 34 \<Longrightarrow>
   slotEndTime (resSlots (BookingsService_getAvailableSlots d cid date) ! k) =
   addMinutes (slotStartTime (resSlots (BookingsService_getAvailableSlots d cid date) ! k)) 30"
  by (simp_all add: dashboard_slot_nth slotAt_def Let_def addMinutes_def setHours_def
        msPerHour_def msPerMinute_def)

lemma find_none: "list_all (\<lambda>x. \<not> P x) xs \<Longrightarrow> find P xs = None"
  by (induction xs) auto

lemma foundBy_overlaps:
  "currentTime < slotEnd \<Longrightarrow> foundBy currentTime slotEnd x \<Longrightarrow>
   overlaps (bStartTime x) (bEndTime x) currentTime slotEnd"
  unfolding foundBy_def overlaps_def by auto

text \<open>
  Claim C10. When a booking of the day lies strictly inside slot \<open>k\<close> of the dashboard
  listing and no other booking of the day overlaps that slot, the slot is marked
  unavailable and its booking id is undefined: the occupancy test has the containment
  case, the lookup of the id does not.
\<close>

theorem contained_booking_has_no_bookingId:
  assumes "k < 34"
    and "b \<in> set (dayBookings d cid date)"
    and "addMinutes (setHours date 6 0 0 0) (30 * int k) < bStartTime b"
    and "bEndTime b < addMinutes (addMinutes (setHours date 6 0 0 0) (30 * int k)) 30"
    and "list_all (\<lambda>x. x = b \<or>
            \<not> overlaps (bStartTime x) (bEndTime x)
                (addMinutes (setHours date 6 0 0 0) (30 * int k))
                (addMinutes (addMinutes (setHours date 6 0 0 0) (30 * int k)) 30))
          (dayBookings d cid date)"
  shows "slotAvailable (resSlots (BookingsService_getAvailableSlots d cid date) ! k) = False \<and>
         slotBookingId (resSlots (BookingsService_getAvailableSlots d cid date) ! k) = None"
proof -
  let ?cur = "addMinutes (setHours date 6 0 0 0) (30 * int k)"
  let ?bs = "dayBookings d cid date"
  have slot: "resSlots (BookingsService_getAvailableSlots d cid date) ! k = slotAt ?bs ?cur"
    using assms(1) by (simp add: dashboard_slot_nth)
  have width: "?cur < addMinutes ?cur 30"
    by (simp add: addMinutes_def msPerMinute_def)
  have "isBookedBy ?cur (addMinutes ?cur 30) b"
    using assms(3,4) unfolding isBookedBy_def by simp
  with assms(2) have booked: "list_ex (isBookedBy ?cur (addMinutes ?cur 30)) ?bs"
    by (auto simp: list_ex_iff)
  have inside: "\<not> foundBy ?cur (addMinutes ?cur 30) b"
    using assms(3,4) unfolding foundBy_def by simp
  have "list_all (\<lambda>x. \<not> foundBy ?cur (addMinutes ?cur 30) x) ?bs"
    using assms(5) inside foundBy_overlaps [OF width] by (auto simp: list_all_iff)
  then have not_found: "find (foundBy ?cur (addMinutes ?cur 30)) ?bs = None"
    by (rule find_none)
  show ?thesis
    unfolding slot using booked not_found by (simp add: slotAt_def Let_def)
qed

theorem contained_booking_has_no_bookingId_witness:
  "(0::nat) < 34 \<and>
   shortBooking \<in> set (dayBookings shortBookingDb ''c1'' (instantOf 19742 0 0)) \<and>
   addMinutes (setHours (instantOf 19742 0 0) 6 0 0 0) (30 * int 0) < bStartTime shortBooking \<and>
   bEndTime shortBooking
     < addMinutes (addMinutes (setHours (instantOf 19742 0 0) 6 0 0 0) (30 * int 0)) 30 \<and>
   slotAvailable
     (resSlots (BookingsService_getAvailableSlots shortBookingDb ''c1'' (instantOf 19742 0 0)) ! 0)
     = False \<and>
   slotBookingId
     (resSlots (BookingsService_getAvailableSlots shortBookingDb ''c1'' (instantOf 19742 0 0)) ! 0)
     = None"
proof -
  have day: "dayBookings shortBookingDb ''c1'' (instantOf 19742 0 0) = [shortBooking]"
    by (simp add: dayBookings_def shortBookingDb_def shortBooking_def seedDb_def
          activeStatus_def time_defs)
  have h1: "(0::nat) < 34" by simp
  have h2: "shortBooking \<in> set (dayBookings shortBookingDb ''c1'' (instantOf 19742 0 0))"
    by (simp add: day)
  have h3: "addMinutes (setHours (instantOf 19742 0 0) 6 0 0 0) (30 * int 0)
      < bStartTime shortBooking"
    by (simp add: shortBooking_def time_defs)
  have h4: "bEndTime shortBooking
      < addMinutes (addMinutes (setHours (instantOf 19742 0 0) 6 0 0 0) (30 * int 0)) 30"
    by (simp add: shortBooking_def time_defs)
  have h5: "list_all (\<lambda>x. x = shortBooking \<or>
            \<not> overlaps (bStartTime x) (bEndTime x)
                (addMinutes (setHours (instantOf 19742 0 0) 6 0 0 0) (30 * int 0))
                (addMinutes (addMinutes (setHours (instantOf 19742 0 0) 6 0 0 0) (30 * int 0)) 30))
          (dayBookings shortBookingDb ''c1'' (instantOf 19742 0 0))"
    by (simp add: day)
  from h1 h2 h3 h4 contained_booking_has_no_bookingId [OF h1 h2 h3 h4 h5]
  show ?thesis by simp
qed

text \<open>
  The public listing does consult the blocks: a block of the day that lacks a time bound,
  or whose minutes the slot overlaps, makes the slot unavailable, with the reason of the
  first such block.
\<close>

lemma checkBlocks_find:
  "checkBlocks hour minute blks =
     (case find (blockHitsSlot hour minute) blks of
        None \<Rightarrow> (True, None)
      | Some k \<Rightarrow> (False, Some (Bloqueado (caReason k))))"
  by (induction blks) (auto simp: blockHitsSlot_def split: option.splits)

lemma public_slot_blocked:
  assumes "find (blockHitsSlot hour minute) blks = Some k"
  shows "psAvailable (publicSlotAt date bs blks hour minute) = False \<and>
         psReason (publicSlotAt date bs blks hour minute) = Some (Bloqueado (caReason k))"
  using assms by (simp add: publicSlotAt_def Let_def checkBlocks_find)

text \<open>
  Claim C4 fails on the dashboard listing. With court c1 blocked for maintenance from
  2024-01-20 to 2024-01-25 (no time bounds) and no booking, the dashboard listing of
  2024-01-20 marks all 34 slots available, although the resolver of the same service
  refuses 10:00 to 10:30 and the public listing marks every slot blocked for maintenance.
\<close>

theorem dashboard_slots_ignore_blocks:
  "length (resSlots (BookingsService_getAvailableSlots maintenanceDb ''c1'' (instantOf 19742 0 0)))
     = 34 \<and>
   list_all slotAvailable
     (resSlots (BookingsService_getAvailableSlots maintenanceDb ''c1'' (instantOf 19742 0 0))) \<and>
   checkTimeSlotAvailability maintenanceDb ''c1'' (instantOf 19742 10 0) (instantOf 19742 10 30) None
     = False \<and>
   map_sum id (\<lambda>r. list_all (\<lambda>s. psAvailable s = False \<and> psReason s = Some (Bloqueado Maintenance))
                     (prSlots r))
     (PublicCourtsController_getAvailableSlots maintenanceDb ''c1'' (instantOf 19742 0 0))
     = Inr True"
proof (intro conjI)
  have none: "dayBookings maintenanceDb ''c1'' (instantOf 19742 0 0) = []"
    by (simp add: dayBookings_def maintenanceDb_def maintenanceRow_def seedDb_def)
  show "length (resSlots (BookingsService_getAvailableSlots maintenanceDb ''c1'' (instantOf 19742 0 0)))
     = 34"
    by (simp add: dashboard_slots del: upt_Suc)
  show "list_all slotAvailable
     (resSlots (BookingsService_getAvailableSlots maintenanceDb ''c1'' (instantOf 19742 0 0)))"
    by (simp add: dashboard_slots none slotAt_def Let_def list_all_iff del: upt_Suc)
  show "checkTimeSlotAvailability maintenanceDb ''c1'' (instantOf 19742 10 0) (instantOf 19742 10 30) None
     = False"
    by (simp add: maintenanceDb_def maintenanceRow_def seedDb_def checkTimeSlotAvailability_def
          conflictingBookings_def activeBlocks_def time_defs)
  have blks: "activeBlocks maintenanceDb ''c1'' (setHours (instantOf 19742 0 0) 0 0 0 0)
      = blocks maintenanceDb"
    by (simp add: maintenanceDb_def maintenanceRow_def seedDb_def activeBlocks_def time_defs)
  have hit: "find (blockHitsSlot hour minute) (blocks maintenanceDb) = Some (maintenanceRow)"
    for hour minute
    by (simp add: maintenanceDb_def maintenanceRow_def seedDb_def blockHitsSlot_def)
  have reason: "caReason (maintenanceRow) = Maintenance"
    by (simp add: maintenanceDb_def maintenanceRow_def seedDb_def)
  have all: "list_all (\<lambda>s. psAvailable s = False \<and> psReason s = Some (Bloqueado Maintenance))
      (publicSlots date bs (blocks maintenanceDb))" for date bs
    unfolding publicSlots_def
    by (simp add: list_all_iff public_slot_blocked [OF hit] reason)
  show "map_sum id (\<lambda>r. list_all (\<lambda>s. psAvailable s = False \<and> psReason s = Some (Bloqueado Maintenance))
                     (prSlots r))
     (PublicCourtsController_getAvailableSlots maintenanceDb ''c1'' (instantOf 19742 0 0))
     = Inr True"
  proof -
    have court: "findCourt maintenanceDb ''c1'' \<noteq> None"
      by (simp add: findCourt_def maintenanceDb_def maintenanceRow_def seedDb_def)
    then show ?thesis
      using all by (auto simp: PublicCourtsController_getAvailableSlots_def Let_def blks)
  qed
qed


section \<open>Properties of the booking lifecycle\<close>

lemmas lookup_defs = findCourt_def findClient_def findBooking_def

lemma find_updated_row:
  assumes "\<And>b. bId (f b) = bId b"
  shows "find (\<lambda>b. bId b = i) (map (\<lambda>b. if bId b = i then f b else b) xs) =
         map_option f (find (\<lambda>b. bId b = i) xs)"
  using assms by (induction xs) auto

lemma other_rows_kept:
  assumes "\<And>b. bId (f b) = bId b"
  shows "filter (\<lambda>b. bId b \<noteq> i) (map (\<lambda>b. if bId b = i then f b else b) xs) =
         filter (\<lambda>b. bId b \<noteq> i) xs"
  using assms by (induction xs) auto

text \<open>
  Claim C8. For a booking that exists and belongs to the caller: cancelling fails with the
  invalid-state error and leaves the store as it was when the status is cancelled or
  completed; otherwise the booking gets status cancelled and payment status refunded if
  it was paid, pending if not, and no other booking changes.
\<close>

theorem cancelBooking_transitions:
  assumes "findBooking d i = Some bk" and "bUserId bk = userId"
  shows "(bStatus bk = Cancelled \<longrightarrow>
            cancelBooking d i userId = (Inl (BadRequestException ReservaYaCancelada), d)) \<and>
         (bStatus bk = Completed \<longrightarrow>
            cancelBooking d i userId = (Inl (BadRequestException NoCancelarCompletada), d)) \<and>
         (bStatus bk \<noteq> Cancelled \<and> bStatus bk \<noteq> Completed \<longrightarrow>
            fst (cancelBooking d i userId) =
              Inr (bk\<lparr> bStatus := Cancelled,
                       bPaymentStatus :=
                         (if bPaymentStatus bk = Paid then Refunded else PaymentPending) \<rparr>) \<and>
            findBooking (snd (cancelBooking d i userId)) i =
              Some (bk\<lparr> bStatus := Cancelled,
                        bPaymentStatus :=
                          (if bPaymentStatus bk = Paid then Refunded else PaymentPending) \<rparr>) \<and>
            filter (\<lambda>b. bId b \<noteq> i) (bookings (snd (cancelBooking d i userId))) =
              filter (\<lambda>b. bId b \<noteq> i) (bookings d))"
proof (intro conjI impI)
  assume "bStatus bk = Cancelled"
  with assms show "cancelBooking d i userId = (Inl (BadRequestException ReservaYaCancelada), d)"
    by (simp add: cancelBooking_def)
next
  assume "bStatus bk = Completed"
  with assms show "cancelBooking d i userId = (Inl (BadRequestException NoCancelarCompletada), d)"
    by (simp add: cancelBooking_def)
next
  assume live: "bStatus bk \<noteq> Cancelled \<and> bStatus bk \<noteq> Completed"
  have keeps_id: "bId (cancelData bk b) = bId b" for b
    by (simp add: cancelData_def)
  from assms live have run: "cancelBooking d i userId =
      (Inr (cancelData bk bk), updateRow i (cancelData bk) d)"
    by (simp add: cancelBooking_def)
  show "fst (cancelBooking d i userId) =
      Inr (bk\<lparr> bStatus := Cancelled,
               bPaymentStatus := (if bPaymentStatus bk = Paid then Refunded else PaymentPending) \<rparr>)"
    by (simp add: run cancelData_def)
  show "findBooking (snd (cancelBooking d i userId)) i =
      Some (bk\<lparr> bStatus := Cancelled,
                bPaymentStatus := (if bPaymentStatus bk = Paid then Refunded else PaymentPending) \<rparr>)"
    using assms(1) find_updated_row [of "cancelData bk" i "bookings d", OF keeps_id]
    by (simp add: run findBooking_def updateRow_def cancelData_def)
  show "filter (\<lambda>b. bId b \<noteq> i) (bookings (snd (cancelBooking d i userId))) =
      filter (\<lambda>b. bId b \<noteq> i) (bookings d)"
    using other_rows_kept [of "cancelData bk" i "bookings d", OF keeps_id]
    by (simp add: run updateRow_def)
qed

theorem cancelBooking_transitions_witness:
  "findBooking paidDb ''b1'' = Some paidBooking \<and> bUserId paidBooking = ''u1'' \<and>
   bStatus paidBooking \<noteq> Cancelled \<and> bStatus paidBooking \<noteq> Completed \<and>
   fst (cancelBooking paidDb ''b1'' ''u1'') =
     Inr (paidBooking\<lparr> bStatus := Cancelled, bPaymentStatus := Refunded \<rparr>) \<and>
   findBooking paidDb ''b2'' = Some completedBooking \<and> bUserId completedBooking = ''u1'' \<and>
   bStatus completedBooking = Completed \<and>
   cancelBooking paidDb ''b2'' ''u1'' = (Inl (BadRequestException NoCancelarCompletada), paidDb)"
proof -
  have f1: "findBooking paidDb ''b1'' = Some paidBooking"
    by (simp add: findBooking_def paidDb_def paidBooking_def)
  have o1: "bUserId paidBooking = ''u1''" by (simp add: paidBooking_def)
  have s1: "bStatus paidBooking \<noteq> Cancelled \<and> bStatus paidBooking \<noteq> Completed"
    by (simp add: paidBooking_def)
  have p1: "bPaymentStatus paidBooking = Paid" by (simp add: paidBooking_def)
  have f2: "findBooking paidDb ''b2'' = Some completedBooking"
    by (simp add: findBooking_def paidDb_def paidBooking_def completedBooking_def)
  have o2: "bUserId completedBooking = ''u1''" by (simp add: completedBooking_def)
  have s2: "bStatus completedBooking = Completed" by (simp add: completedBooking_def)
  from cancelBooking_transitions [OF f1 o1] s1 p1
  have r1: "fst (cancelBooking paidDb ''b1'' ''u1'') =
     Inr (paidBooking\<lparr> bStatus := Cancelled, bPaymentStatus := Refunded \<rparr>)"
    by simp
  from cancelBooking_transitions [OF f2 o2] s2
  have r2: "cancelBooking paidDb ''b2'' ''u1'' = (Inl (BadRequestException NoCancelarCompletada), paidDb)"
    by simp
  from f1 o1 s1 r1 f2 o2 s2 r2 show ?thesis by simp
qed

text \<open>
  Claim C6, as amended. A booking created on the public path is persisted with status
  pending and payment status pending. A booking created on the dashboard path is
  persisted with the status and the payment status of the request, and with pending where
  the request gives none.
\<close>

theorem created_booking_status:
  "(PublicBookingsController_createBooking d newId pdto = (Inr b, d') \<longrightarrow>
      bStatus b = Pending \<and> bPaymentStatus b = PaymentPending \<and>
      bookings d' = bookings d @ [b]) \<and>
   (BookingsService_create d newId userId dto = (Inr b, d') \<longrightarrow>
      bStatus b = (case dtoStatus dto of None \<Rightarrow> Pending | Some st \<Rightarrow> st) \<and>
      bPaymentStatus b = (case dtoPaymentStatus dto of None \<Rightarrow> PaymentPending | Some ps \<Rightarrow> ps) \<and>
      bookings d' = bookings d @ [b])"
proof (intro conjI impI)
  assume run: "PublicBookingsController_createBooking d newId pdto = (Inr b, d')"
  then obtain ids where b: "b = publicBooking newId pdto (fst ids) (snd ids)"
    and d': "d' = d\<lparr>bookings := bookings d @ [publicBooking newId pdto (fst ids) (snd ids)]\<rparr>"
    by (auto simp: PublicBookingsController_createBooking_def Let_def
        split: option.splits if_splits sum.splits)
  show "bStatus b = Pending" by (simp add: b publicBooking_def)
  show "bPaymentStatus b = PaymentPending" by (simp add: b publicBooking_def)
  show "bookings d' = bookings d @ [b]" by (simp add: b d')
next
  assume run: "BookingsService_create d newId userId dto = (Inr b, d')"
  then have b: "b = createdBooking newId userId dto"
    and d': "d' = d\<lparr>bookings := bookings d @ [createdBooking newId userId dto]\<rparr>"
    by (auto simp: BookingsService_create_def split: option.splits if_splits)
  show "bStatus b = (case dtoStatus dto of None \<Rightarrow> Pending | Some st \<Rightarrow> st)"
    by (simp add: b createdBooking_def defaultStatus_def split: option.splits)
  show "bPaymentStatus b = (case dtoPaymentStatus dto of None \<Rightarrow> PaymentPending | Some ps \<Rightarrow> ps)"
    by (simp add: b createdBooking_def defaultPaymentStatus_def split: option.splits)
  show "bookings d' = bookings d @ [b]" by (simp add: b d')
qed

lemma public_create_on_seed:
  "PublicBookingsController_createBooking seedDb ''b1'' appBooking =
     (Inr (publicBooking ''b1'' appBooking ''u7'' None),
      seedDb\<lparr>bookings := [publicBooking ''b1'' appBooking ''u7'' None]\<rparr>)"
  by (simp add: PublicBookingsController_createBooking_def Let_def seedDb_def appBooking_def
        findCourt_def CourtAvailabilityService_checkAvailability_def activeBlocks_def
        finalIds_def time_defs)

lemma create_on_seed:
  "dtoCourtId dto = ''c1'' \<Longrightarrow> dtoClientId dto = ''cl1'' \<Longrightarrow> dtoStartTime dto < dtoEndTime dto \<Longrightarrow>
   BookingsService_create seedDb newId ''u1'' dto =
     (Inr (createdBooking newId ''u1'' dto), seedDb\<lparr>bookings := [createdBooking newId ''u1'' dto]\<rparr>)"
  by (simp add: BookingsService_create_def seedDb_def lookup_defs checkTimeSlotAvailability_def
        conflictingBookings_def activeBlocks_def)

theorem created_booking_status_witness:
  "PublicBookingsController_createBooking seedDb ''b1'' appBooking =
     (Inr (publicBooking ''b1'' appBooking ''u7'' None),
      seedDb\<lparr>bookings := [publicBooking ''b1'' appBooking ''u7'' None]\<rparr>) \<and>
   bStatus (publicBooking ''b1'' appBooking ''u7'' None) = Pending \<and>
   bPaymentStatus (publicBooking ''b1'' appBooking ''u7'' None) = PaymentPending \<and>
   BookingsService_create seedDb ''b1'' ''u1'' bookC1 =
     (Inr (createdBooking ''b1'' ''u1'' bookC1), seedDb\<lparr>bookings := [createdBooking ''b1'' ''u1'' bookC1]\<rparr>) \<and>
   bStatus (createdBooking ''b1'' ''u1'' bookC1) = Pending \<and>
   bPaymentStatus (createdBooking ''b1'' ''u1'' bookC1) = PaymentPending"
proof -
  have dash: "BookingsService_create seedDb ''b1'' ''u1'' bookC1 =
     (Inr (createdBooking ''b1'' ''u1'' bookC1), seedDb\<lparr>bookings := [createdBooking ''b1'' ''u1'' bookC1]\<rparr>)"
    by (rule create_on_seed) (simp_all add: bookC1_def time_defs)
  have none: "dtoStatus bookC1 = None" "dtoPaymentStatus bookC1 = None"
    by (simp_all add: bookC1_def)
  from created_booking_status [of seedDb "''b1''" appBooking
      "publicBooking ''b1'' appBooking ''u7'' None"
      "seedDb\<lparr>bookings := [publicBooking ''b1'' appBooking ''u7'' None]\<rparr>" "''u1''" bookC1]
    public_create_on_seed
  have pub: "bStatus (publicBooking ''b1'' appBooking ''u7'' None) = Pending \<and>
      bPaymentStatus (publicBooking ''b1'' appBooking ''u7'' None) = PaymentPending"
    by simp
  from created_booking_status [of seedDb "''b1''" appBooking
      "createdBooking ''b1'' ''u1'' bookC1"
      "seedDb\<lparr>bookings := [createdBooking ''b1'' ''u1'' bookC1]\<rparr>" "''u1''" bookC1]
    dash none
  have dsh: "bStatus (createdBooking ''b1'' ''u1'' bookC1) = Pending \<and>
      bPaymentStatus (createdBooking ''b1'' ''u1'' bookC1) = PaymentPending"
    by simp
  from public_create_on_seed dash pub dsh show ?thesis by simp
qed

text \<open>
  Claim C6 as stated fails on the dashboard path: a request that carries status confirmed
  and payment status paid is persisted as confirmed and paid.
\<close>

theorem dashboard_create_keeps_request_status_counterexample:
  "BookingsService_create seedDb ''b1'' ''u1'' bookC1Confirmed =
     (Inr (createdBooking ''b1'' ''u1'' bookC1Confirmed),
      seedDb\<lparr>bookings := [createdBooking ''b1'' ''u1'' bookC1Confirmed]\<rparr>) \<and>
   bStatus (createdBooking ''b1'' ''u1'' bookC1Confirmed) = Confirmed \<and>
   bPaymentStatus (createdBooking ''b1'' ''u1'' bookC1Confirmed) = Paid"
proof -
  have "BookingsService_create seedDb ''b1'' ''u1'' bookC1Confirmed =
     (Inr (createdBooking ''b1'' ''u1'' bookC1Confirmed),
      seedDb\<lparr>bookings := [createdBooking ''b1'' ''u1'' bookC1Confirmed]\<rparr>)"
    by (rule create_on_seed) (simp_all add: bookC1Confirmed_def bookC1_def time_defs)
  then show ?thesis
    by (simp add: createdBooking_def bookC1Confirmed_def)
qed



lemma public_duration:
  "(setHours date (fst en) (snd en) 0 0 - setHours date (fst st) (snd st) 0 0) div msPerMinute
     = toMinutes en - toMinutes st"
  by (simp add: setHours_def toMinutes_def msPerHour_def msPerMinute_def algebra_simps)

lemma createBooking_steps:
  "PublicBookingsController_createBooking d newId dto =
     (case findCourt d (pubCourtId dto) of
        None \<Rightarrow> (Inl (NotFoundException CanchaNoEncontrada), d)
      | Some c \<Rightarrow>
          if \<not> courtIsActive c then (Inl (BadRequestException CanchaNoActiva), d)
          else if toMinutes (pubEndTime dto) \<le> toMinutes (pubStartTime dto)
          then (Inl (BadRequestException HoraFinPosterior), d)
          else if \<not> acAvailable (publicCheck d dto)
          then (Inl (BadRequestException
                       (CanchaNoDisponible (map_option caReason (acBlockedBy (publicCheck d dto))))),
                d)
          else if length (publicConflicts d dto) > 0
          then (Inl (BadRequestException YaExisteReserva), d)
          else
            (case finalIds dto c of
               Inl err \<Rightarrow> (Inl err, d)
             | Inr ids \<Rightarrow>
                 (Inr (publicBooking newId dto (fst ids) (snd ids)),
                  d\<lparr>bookings := bookings d @ [publicBooking newId dto (fst ids) (snd ids)]\<rparr>)))"
  by (simp add: PublicBookingsController_createBooking_def Let_def publicCheck_def
        publicConflicts_def public_duration split: option.splits)

text \<open>
  Claim C7, as amended. On the dashboard path, once the court, the client and the times
  pass their checks, create raises the conflict error and leaves the store as it was when
  the availability check is false, and persists the booking when it is true. On the
  public path, once the court is found active and the end is after the start: a false
  blackout check raises a bad-request error that names the block's reason and leaves the
  store as it was; an overlapping active booking makes create fail and leaves the store
  as it was; otherwise the booking is persisted, unless the user or client id that
  \<open>isAppNative\<close> requires is missing.
\<close>

theorem create_conflict_handling:
  "(findCourt d (dtoCourtId dto) = Some c \<and> courtComplexUserId c = userId \<and>
    findClient d (dtoClientId dto) = Some cl \<and> clientUserId cl = userId \<and>
    dtoStartTime dto < dtoEndTime dto \<longrightarrow>
      BookingsService_create d newId userId dto =
        (if checkTimeSlotAvailability d (dtoCourtId dto) (dtoStartTime dto) (dtoEndTime dto) None
         then (Inr (createdBooking newId userId dto),
               d\<lparr>bookings := bookings d @ [createdBooking newId userId dto]\<rparr>)
         else (Inl (ConflictException CanchaNoDisponibleEnHorario), d))) \<and>
   (findCourt d (pubCourtId pdto) = Some pc \<and> courtIsActive pc \<and>
    toMinutes (pubStartTime pdto) < toMinutes (pubEndTime pdto) \<longrightarrow>
      (if \<not> acAvailable (publicCheck d pdto)
       then PublicBookingsController_createBooking d newId pdto =
              (Inl (BadRequestException
                      (CanchaNoDisponible (map_option caReason (acBlockedBy (publicCheck d pdto))))),
               d)
       else if length (publicConflicts d pdto) > 0
       then isl (fst (PublicBookingsController_createBooking d newId pdto)) \<and>
            snd (PublicBookingsController_createBooking d newId pdto) = d
       else PublicBookingsController_createBooking d newId pdto =
              (case finalIds pdto pc of
                 Inl err \<Rightarrow> (Inl err, d)
               | Inr ids \<Rightarrow>
                   (Inr (publicBooking newId pdto (fst ids) (snd ids)),
                    d\<lparr>bookings :=
                         bookings d @ [publicBooking newId pdto (fst ids) (snd ids)]\<rparr>))))"
proof (intro conjI impI)
  assume "findCourt d (dtoCourtId dto) = Some c \<and> courtComplexUserId c = userId \<and>
    findClient d (dtoClientId dto) = Some cl \<and> clientUserId cl = userId \<and>
    dtoStartTime dto < dtoEndTime dto"
  then show "BookingsService_create d newId userId dto =
        (if checkTimeSlotAvailability d (dtoCourtId dto) (dtoStartTime dto) (dtoEndTime dto) None
         then (Inr (createdBooking newId userId dto),
               d\<lparr>bookings := bookings d @ [createdBooking newId userId dto]\<rparr>)
         else (Inl (ConflictException CanchaNoDisponibleEnHorario), d))"
    by (simp add: BookingsService_create_def)
next
  assume "findCourt d (pubCourtId pdto) = Some pc \<and> courtIsActive pc \<and>
    toMinutes (pubStartTime pdto) < toMinutes (pubEndTime pdto)"
  then show "if \<not> acAvailable (publicCheck d pdto)
       then PublicBookingsController_createBooking d newId pdto =
              (Inl (BadRequestException
                      (CanchaNoDisponible (map_option caReason (acBlockedBy (publicCheck d pdto))))),
               d)
       else if length (publicConflicts d pdto) > 0
       then isl (fst (PublicBookingsController_createBooking d newId pdto)) \<and>
            snd (PublicBookingsController_createBooking d newId pdto) = d
       else PublicBookingsController_createBooking d newId pdto =
              (case finalIds pdto pc of
                 Inl err \<Rightarrow> (Inl err, d)
               | Inr ids \<Rightarrow>
                   (Inr (publicBooking newId pdto (fst ids) (snd ids)),
                    d\<lparr>bookings :=
                         bookings d @ [publicBooking newId pdto (fst ids) (snd ids)]\<rparr>))"
    by (simp add: createBooking_steps)
qed


lemma afternoon_lookups:
  "findCourt afternoonDb ''c1'' =
     Some \<lparr> courtId = ''c1'', courtComplexUserId = ''u1'', courtIsActive = True \<rparr>"
  "findClient afternoonDb ''cl1'' = Some \<lparr> clientId = ''cl1'', clientUserId = ''u1'' \<rparr>"
  by (simp_all add: lookup_defs afternoonDb_def seedDb_def)

lemma maintenance_court:
  "findCourt maintenanceDb ''c1'' =
     Some \<lparr> courtId = ''c1'', courtComplexUserId = ''u1'', courtIsActive = True \<rparr>"
  by (simp add: findCourt_def maintenanceDb_def maintenanceRow_def seedDb_def)

lemma maintenance_check:
  "publicCheck maintenanceDb appBooking =
     \<lparr> acAvailable = False, acBlockedBy = Some (maintenanceRow) \<rparr>"
  by (simp add: publicCheck_def CourtAvailabilityService_checkAvailability_def Let_def
        activeBlocks_def maintenanceDb_def maintenanceRow_def seedDb_def appBooking_def time_defs)

theorem create_conflict_handling_witness:
  "BookingsService_create afternoonDb ''b9'' ''u1'' bookC1Straddling =
     (Inl (ConflictException CanchaNoDisponibleEnHorario), afternoonDb) \<and>
   BookingsService_create afternoonDb ''b9'' ''u1'' bookC1Later =
     (Inr (createdBooking ''b9'' ''u1'' bookC1Later),
      afternoonDb\<lparr>bookings := bookings afternoonDb @ [createdBooking ''b9'' ''u1'' bookC1Later]\<rparr>) \<and>
   PublicBookingsController_createBooking maintenanceDb ''b9'' appBooking =
     (Inl (BadRequestException (CanchaNoDisponible (Some Maintenance))), maintenanceDb)"
proof -
  let ?c = "\<lparr> courtId = ''c1'', courtComplexUserId = ''u1'', courtIsActive = True \<rparr>"
  let ?cl = "\<lparr> clientId = ''cl1'', clientUserId = ''u1'' \<rparr>"
  have busy: "\<not> checkTimeSlotAvailability afternoonDb ''c1''
      (instantOf 19742 14 30) (instantOf 19742 15 30) None"
    by (simp add: afternoonDb_def seedDb_def resolver_defs time_defs)
  have free: "checkTimeSlotAvailability afternoonDb ''c1''
      (instantOf 19742 15 0) (instantOf 19742 16 0) None"
    by (simp add: afternoonDb_def seedDb_def resolver_defs time_defs)
  have straddling: "BookingsService_create afternoonDb ''b9'' ''u1'' bookC1Straddling =
     (Inl (ConflictException CanchaNoDisponibleEnHorario), afternoonDb)"
    using create_conflict_handling
      [of afternoonDb bookC1Straddling ?c "''u1''" ?cl "''b9''", THEN conjunct1]
      afternoon_lookups busy
    by (simp add: bookC1Straddling_def bookC1_def time_defs)
  have later: "BookingsService_create afternoonDb ''b9'' ''u1'' bookC1Later =
     (Inr (createdBooking ''b9'' ''u1'' bookC1Later),
      afternoonDb\<lparr>bookings := bookings afternoonDb @ [createdBooking ''b9'' ''u1'' bookC1Later]\<rparr>)"
    using create_conflict_handling
      [of afternoonDb bookC1Later ?c "''u1''" ?cl "''b9''", THEN conjunct1]
      afternoon_lookups free
    by (simp add: bookC1Later_def bookC1_def time_defs)
  have order: "toMinutes (pubStartTime appBooking) < toMinutes (pubEndTime appBooking)"
    by (simp add: appBooking_def toMinutes_def)
  have court: "findCourt maintenanceDb (pubCourtId appBooking) = Some ?c"
    using maintenance_court by (simp add: appBooking_def)
  have reason: "caReason (maintenanceRow) = Maintenance"
    by (simp add: maintenanceDb_def maintenanceRow_def seedDb_def)
  have blocked: "PublicBookingsController_createBooking maintenanceDb ''b9'' appBooking =
     (Inl (BadRequestException (CanchaNoDisponible (Some Maintenance))), maintenanceDb)"
    using create_conflict_handling
      [where d = maintenanceDb and pdto = appBooking and pc = ?c and newId = "''b9''",
         THEN conjunct2]
      court order
    by (simp add: maintenance_check reason)
  from straddling later blocked show ?thesis by simp
qed

text \<open>
  Claim C7 as stated fails on the public path: on a court blocked for maintenance the
  blackout check is false and create raises a bad-request error, where the dashboard path
  raises the conflict error for the same court and times.
\<close>

theorem public_create_blocked_counterexample:
  "acAvailable (publicCheck maintenanceDb appBooking) = False \<and>
   PublicBookingsController_createBooking maintenanceDb ''b9'' appBooking =
     (Inl (BadRequestException (CanchaNoDisponible (Some Maintenance))), maintenanceDb) \<and>
   BookingsService_create maintenanceDb ''b9'' ''u1'' bookC1 =
     (Inl (ConflictException CanchaNoDisponibleEnHorario), maintenanceDb)"
proof (intro conjI)
  show "acAvailable (publicCheck maintenanceDb appBooking) = False"
    by (simp add: maintenance_check)
  have reason: "caReason (maintenanceRow) = Maintenance"
    by (simp add: maintenanceDb_def maintenanceRow_def seedDb_def)
  have court: "findCourt maintenanceDb (pubCourtId appBooking) = Some
      \<lparr> courtId = ''c1'', courtComplexUserId = ''u1'', courtIsActive = True \<rparr>"
    using maintenance_court by (simp add: appBooking_def)
  have order: "toMinutes (pubStartTime appBooking) < toMinutes (pubEndTime appBooking)"
    by (simp add: appBooking_def toMinutes_def)
  show "PublicBookingsController_createBooking maintenanceDb ''b9'' appBooking =
     (Inl (BadRequestException (CanchaNoDisponible (Some Maintenance))), maintenanceDb)"
    using order by (simp add: createBooking_steps court maintenance_check reason)
  have "\<not> checkTimeSlotAvailability maintenanceDb ''c1''
      (instantOf 19742 14 0) (instantOf 19742 15 0) None"
    by (simp add: maintenanceDb_def maintenanceRow_def seedDb_def resolver_defs time_defs)
  moreover have "findClient maintenanceDb ''cl1'' = Some \<lparr> clientId = ''cl1'', clientUserId = ''u1'' \<rparr>"
    by (simp add: findClient_def maintenanceDb_def maintenanceRow_def seedDb_def)
  ultimately show "BookingsService_create maintenanceDb ''b9'' ''u1'' bookC1 =
     (Inl (ConflictException CanchaNoDisponibleEnHorario), maintenanceDb)"
    using maintenance_court
    by (simp add: BookingsService_create_def bookC1_def time_defs)
qed

text \<open>
  The public path also raises a bad-request error when an active booking holds the
  times, although the endpoint documents status 409 for that case.
\<close>

lemma public_create_overlap_is_bad_request:
  "PublicBookingsController_createBooking afternoonDb ''b9'' appBooking =
     (Inl (BadRequestException YaExisteReserva), afternoonDb)"
proof -
  have court: "findCourt afternoonDb (pubCourtId appBooking) = Some
      \<lparr> courtId = ''c1'', courtComplexUserId = ''u1'', courtIsActive = True \<rparr>"
    using afternoon_lookups(1) by (simp add: appBooking_def)
  have order: "toMinutes (pubStartTime appBooking) < toMinutes (pubEndTime appBooking)"
    by (simp add: appBooking_def toMinutes_def)
  have check: "acAvailable (publicCheck afternoonDb appBooking)"
    by (simp add: publicCheck_def CourtAvailabilityService_checkAvailability_def Let_def
          activeBlocks_def afternoonDb_def seedDb_def appBooking_def hasOverlap_def time_defs)
  have held: "length (publicConflicts afternoonDb appBooking) > 0"
    by (simp add: publicConflicts_def afternoonDb_def seedDb_def appBooking_def
          conflictsWith_def activeStatus_def time_defs)
  from order check held show ?thesis
    by (simp add: createBooking_steps court)
qed



section \<open>The safety invariant\<close>

text \<open>
  Claim C1 fails on the code. From the empty store, booking court c1 and then court c2
  from 14:00 to 15:00 succeeds and leaves no double booking. Updating the second booking
  with court c1 and the same times succeeds as well: the availability check runs against
  the booking's stored court c2, and the row is written with court c1, which then holds
  two overlapping pending bookings.
\<close>

theorem update_moves_booking_onto_booked_court:
  "BookingsService_create seedDb ''b1'' ''u1'' bookC1 =
     (Inr (createdBooking ''b1'' ''u1'' bookC1), oneBookingDb) \<and>
   BookingsService_create oneBookingDb ''b2'' ''u1'' bookC2 =
     (Inr (createdBooking ''b2'' ''u1'' bookC2), twoBookingsDb) \<and>
   doubleBooked twoBookingsDb = False \<and>
   BookingsService_update twoBookingsDb ''b2'' ''u1'' moveToC1 =
     (Inr (applyUpdate moveToC1 (createdBooking ''b2'' ''u1'' bookC2)),
      updateRow ''b2'' (applyUpdate moveToC1) twoBookingsDb) \<and>
   doubleBooked (updateRow ''b2'' (applyUpdate moveToC1) twoBookingsDb) = True"
proof (intro conjI)
  show "BookingsService_create seedDb ''b1'' ''u1'' bookC1 =
     (Inr (createdBooking ''b1'' ''u1'' bookC1), oneBookingDb)"
    by (simp add: BookingsService_create_def seedDb_def oneBookingDb_def lookup_defs
          bookC1_def resolver_defs time_defs)
  show "BookingsService_create oneBookingDb ''b2'' ''u1'' bookC2 =
     (Inr (createdBooking ''b2'' ''u1'' bookC2), twoBookingsDb)"
    by (simp add: BookingsService_create_def seedDb_def oneBookingDb_def twoBookingsDb_def
          lookup_defs bookC1_def bookC2_def createdBooking_def resolver_defs time_defs)
  show "doubleBooked twoBookingsDb = False"
    by (simp add: doubleBooked_def clash_def twoBookingsDb_def seedDb_def createdBooking_def
          bookC1_def bookC2_def)
  show "BookingsService_update twoBookingsDb ''b2'' ''u1'' moveToC1 =
     (Inr (applyUpdate moveToC1 (createdBooking ''b2'' ''u1'' bookC2)),
      updateRow ''b2'' (applyUpdate moveToC1) twoBookingsDb)"
    by (simp add: BookingsService_update_def Let_def findBooking_def twoBookingsDb_def
          seedDb_def createdBooking_def bookC1_def bookC2_def moveToC1_def noChange_def
          timesGiven_def resolver_defs time_defs defaultStatus_def)
  show "doubleBooked (updateRow ''b2'' (applyUpdate moveToC1) twoBookingsDb) = True"
    by (simp add: doubleBooked_def clash_def updateRow_def applyUpdate_def twoBookingsDb_def
          seedDb_def createdBooking_def bookC1_def bookC2_def moveToC1_def noChange_def
          activeStatus_def overlaps_def defaultStatus_def time_defs)
qed

text \<open>
  A second way in: an update that only sets the status runs no availability check, so a
  cancelled booking whose times were booked again can be made active.
\<close>

lemma update_reactivates_cancelled_booking:
  "doubleBooked rebookedDb = False \<and>
   isl (fst (BookingsService_update rebookedDb ''b1'' ''u1'' reactivate)) = False \<and>
   doubleBooked (snd (BookingsService_update rebookedDb ''b1'' ''u1'' reactivate)) = True"
  by (simp add: BookingsService_update_def Let_def findBooking_def rebookedDb_def
        seedDb_def createdBooking_def bookC1_def reactivate_def noChange_def timesGiven_def
        doubleBooked_def clash_def updateRow_def applyUpdate_def activeStatus_def overlaps_def
        defaultStatus_def time_defs)


text \<open>
  What does hold: the invariant survives every successful create, on both paths, given a
  fresh identifier, and every successful update that leaves the court and the status of
  the booking alone.
\<close>

lemma doubleBooked_iff:
  "doubleBooked d = (\<exists>a \<in> set (bookings d). \<exists>b \<in> set (bookings d). clash a b)"
  by (simp add: doubleBooked_def list_ex_iff)

lemma clash_sym: "clash a b \<Longrightarrow> clash b a"
  unfolding clash_def overlaps_def by auto

lemma available_excludes_overlap:
  assumes avail: "checkTimeSlotAvailability d cid s e excl"
    and order: "s < e"
    and row: "x \<in> set (bookings d)" "bookingWellFormed x"
    and same: "bCourtId x = cid" "activeStatus (bStatus x)" "notExcluded excl x"
  shows "\<not> overlaps (bStartTime x) (bEndTime x) s e"
proof
  assume "overlaps (bStartTime x) (bEndTime x) s e"
  with order row(2) have "conflictsWith s e x"
    by (simp add: conflictsWith_overlaps)
  with row(1) same have "x \<in> set (conflictingBookings d cid s e excl)"
    by (simp add: conflictingBookings_def)
  then have "length (conflictingBookings d cid s e excl) > 0"
    by (cases "conflictingBookings d cid s e excl") auto
  with avail show False
    by (simp add: checkTimeSlotAvailability_def)
qed

lemma appended_row_safe:
  assumes safe: "storeSafe d"
    and fresh: "bId b \<notin> set (map bId (bookings d))"
    and wf: "bookingWellFormed b"
    and apart: "\<And>x. x \<in> set (bookings d) \<Longrightarrow> bCourtId x = bCourtId b \<Longrightarrow>
        activeStatus (bStatus x) \<Longrightarrow>
        \<not> overlaps (bStartTime x) (bEndTime x) (bStartTime b) (bEndTime b)"
  shows "storeSafe (d\<lparr>bookings := bookings d @ [b]\<rparr>)"
proof -
  from safe have ids: "distinct (map bId (bookings d))"
    and wfs: "list_all bookingWellFormed (bookings d)"
    and single: "\<not> doubleBooked d"
    by (simp_all add: storeSafe_def)
  have "\<not> doubleBooked (d\<lparr>bookings := bookings d @ [b]\<rparr>)"
  proof
    assume "doubleBooked (d\<lparr>bookings := bookings d @ [b]\<rparr>)"
    then obtain x y where x: "x \<in> set (bookings d) \<or> x = b"
      and y: "y \<in> set (bookings d) \<or> y = b" and xy: "clash x y"
      by (auto simp: doubleBooked_iff)
    have against_new: False if old: "z \<in> set (bookings d)" and hit: "clash z b" for z
    proof -
      from hit have "bCourtId z = bCourtId b" "activeStatus (bStatus z)"
        "overlaps (bStartTime z) (bEndTime z) (bStartTime b) (bEndTime b)"
        by (simp_all add: clash_def)
      with apart [OF old] show False by simp
    qed
    from x y show False
    proof (elim disjE)
      assume "x \<in> set (bookings d)" "y \<in> set (bookings d)"
      with xy single show False by (auto simp: doubleBooked_iff)
    next
      assume "x \<in> set (bookings d)" "y = b"
      with xy against_new show False by simp
    next
      assume "x = b" "y \<in> set (bookings d)"
      with xy against_new clash_sym show False by blast
    next
      assume "x = b" "y = b"
      with xy show False by (simp add: clash_def)
    qed
  qed
  with ids wfs fresh wf show ?thesis
    by (simp add: storeSafe_def)
qed

lemma create_preserves_storeSafe:
  assumes safe: "storeSafe d"
    and fresh: "newId \<notin> set (map bId (bookings d))"
    and run: "BookingsService_create d newId userId dto = (Inr b, d')"
  shows "storeSafe d'"
proof -
  from run have b: "b = createdBooking newId userId dto"
    and d': "d' = d\<lparr>bookings := bookings d @ [b]\<rparr>"
    and order: "dtoStartTime dto < dtoEndTime dto"
    and avail: "checkTimeSlotAvailability d (dtoCourtId dto) (dtoStartTime dto) (dtoEndTime dto) None"
    by (auto simp: BookingsService_create_def split: option.splits if_splits)
  from safe have wfs: "list_all bookingWellFormed (bookings d)"
    by (simp add: storeSafe_def)
  have "storeSafe (d\<lparr>bookings := bookings d @ [b]\<rparr>)"
  proof (rule appended_row_safe [OF safe])
    show "bId b \<notin> set (map bId (bookings d))"
      using fresh by (simp add: b createdBooking_def)
    show "bookingWellFormed b"
      using order by (simp add: b createdBooking_def bookingWellFormed_def)
    fix x
    assume "x \<in> set (bookings d)" "bCourtId x = bCourtId b" "activeStatus (bStatus x)"
    with wfs avail order
    show "\<not> overlaps (bStartTime x) (bEndTime x) (bStartTime b) (bEndTime b)"
      using available_excludes_overlap [of d "dtoCourtId dto" "dtoStartTime dto" "dtoEndTime dto" None x]
      by (simp add: b createdBooking_def list_all_iff notExcluded_def)
  qed
  with d' show ?thesis by simp
qed

lemma public_create_preserves_storeSafe:
  assumes safe: "storeSafe d"
    and fresh: "newId \<notin> set (map bId (bookings d))"
    and run: "PublicBookingsController_createBooking d newId dto = (Inr b, d')"
  shows "storeSafe d'"
proof -
  from run obtain ids where b: "b = publicBooking newId dto (fst ids) (snd ids)"
    and d': "d' = d\<lparr>bookings := bookings d @ [b]\<rparr>"
    and order: "toMinutes (pubStartTime dto) < toMinutes (pubEndTime dto)"
    and none: "publicConflicts d dto = []"
    by (auto simp: createBooking_steps split: option.splits if_splits sum.splits)
  from safe have wfs: "list_all bookingWellFormed (bookings d)"
    by (simp add: storeSafe_def)
  from order have later: "bStartTime b < bEndTime b"
    by (simp add: b publicBooking_def setHours_def toMinutes_def msPerHour_def msPerMinute_def)
  have "storeSafe (d\<lparr>bookings := bookings d @ [b]\<rparr>)"
  proof (rule appended_row_safe [OF safe])
    show "bId b \<notin> set (map bId (bookings d))"
      using fresh by (simp add: b publicBooking_def)
    show "bookingWellFormed b"
      using later by (simp add: bookingWellFormed_def)
    fix x
    assume x: "x \<in> set (bookings d)" "bCourtId x = bCourtId b" "activeStatus (bStatus x)"
    with wfs have "bookingWellFormed x" by (simp add: list_all_iff)
    with later have "conflictsWith (bStartTime b) (bEndTime b) x =
        overlaps (bStartTime x) (bEndTime x) (bStartTime b) (bEndTime b)"
      by (rule conflictsWith_overlaps)
    moreover from none x have "\<not> conflictsWith (bStartTime b) (bEndTime b) x"
      by (auto simp: publicConflicts_def filter_empty_conv b publicBooking_def)
    ultimately show "\<not> overlaps (bStartTime x) (bEndTime x) (bStartTime b) (bEndTime b)"
      by simp
  qed
  with d' show ?thesis by simp
qed


lemma same_id_same_row:
  assumes "distinct (map bId xs)" and "x \<in> set xs" and "y \<in> set xs" and "bId x = bId y"
  shows "x = y"
  using assms by (meson distinct_map inj_on_eq_iff)

lemma update_preserves_storeSafe:
  assumes safe: "storeSafe d"
    and court_kept: "updCourtId dto = None"
    and status_kept: "updStatus dto = None"
    and run: "BookingsService_update d i userId dto = (Inr b, d')"
  shows "storeSafe d'"
proof -
  let ?g = "\<lambda>x. if bId x = i then applyUpdate dto x else x"
  from run obtain bk where found: "findBooking d i = Some bk"
    by (auto simp: BookingsService_update_def split: option.splits)
  then have bk: "bk \<in> set (bookings d)" "bId bk = i"
    by (auto simp: findBooking_def find_Some_iff)
  from run found have d': "d' = updateRow i (applyUpdate dto) d"
    by (auto simp: BookingsService_update_def Let_def split: if_splits)
  from safe have ids: "distinct (map bId (bookings d))"
    and wfs: "list_all bookingWellFormed (bookings d)"
    and single: "\<not> doubleBooked d"
    by (simp_all add: storeSafe_def)
  have keeps_id: "bId (?g x) = bId x" for x
    by (simp add: applyUpdate_def)
  have rows: "bookings d' = map ?g (bookings d)"
    by (simp add: d' updateRow_def)
  have the_row: "x = bk" if "x \<in> set (bookings d)" "bId x = i" for x
    using same_id_same_row [OF ids that(1) bk(1)] that(2) bk(2) by simp
  let ?s = "bStartTime (applyUpdate dto bk)"
  let ?e = "bEndTime (applyUpdate dto bk)"
  have moved: "?s < ?e \<and>
      checkTimeSlotAvailability d (bCourtId bk) ?s ?e (Some i)" if "timesGiven dto"
    using run found that
    by (auto simp: BookingsService_update_def Let_def applyUpdate_def
        split: if_splits option.splits)
  have stays: "?s = bStartTime bk \<and> ?e = bEndTime bk" if "\<not> timesGiven dto"
    using that by (auto simp: timesGiven_def applyUpdate_def split: option.splits)
  have same_court: "bCourtId (applyUpdate dto bk) = bCourtId bk"
    and same_status: "bStatus (applyUpdate dto bk) = bStatus bk"
    using court_kept status_kept by (simp_all add: applyUpdate_def)
  have wf_bk: "bookingWellFormed bk"
    using wfs bk(1) by (simp add: list_all_iff)
  have wf_new: "bookingWellFormed (applyUpdate dto bk)"
    using moved stays wf_bk by (cases "timesGiven dto") (auto simp: bookingWellFormed_def)
  have wfs': "list_all bookingWellFormed (bookings d')"
    unfolding rows using wfs wf_new the_row by (auto simp: list_all_iff)
  have ids': "distinct (map bId (bookings d'))"
    unfolding rows using ids keeps_id by (simp add: comp_def)
  have no_hit: False
    if y: "y \<in> set (bookings d)" "bId y \<noteq> i" and hit: "clash (applyUpdate dto bk) y" for y
  proof (cases "timesGiven dto")
    case False
    with hit stays same_court same_status bk(2) have "clash bk y"
      by (simp add: clash_def applyUpdate_def)
    with bk(1) y(1) single show False by (auto simp: doubleBooked_iff)
  next
    case True
    from hit have court: "bCourtId y = bCourtId bk" and live: "activeStatus (bStatus y)"
      and over: "overlaps ?s ?e (bStartTime y) (bEndTime y)"
      using same_court by (simp_all add: clash_def)
    from wfs y(1) have "bookingWellFormed y" by (simp add: list_all_iff)
    with moved [OF True] y court live
    have "\<not> overlaps (bStartTime y) (bEndTime y) ?s ?e"
      using available_excludes_overlap [of d "bCourtId bk" ?s ?e "Some i" y]
      by (simp add: notExcluded_def)
    with over show False by (simp add: overlaps_def)
  qed
  have "\<not> doubleBooked d'"
  proof
    assume "doubleBooked d'"
    then obtain x y where x: "x \<in> set (bookings d)" and y: "y \<in> set (bookings d)"
      and hit: "clash (?g x) (?g y)"
      by (auto simp: doubleBooked_iff rows)
    from hit have differ: "bId x \<noteq> bId y"
      using keeps_id by (simp add: clash_def)
    show False
    proof (cases "bId x = i")
      case True
      with x the_row have "x = bk" by simp
      with True differ hit y no_hit [of y] show False by simp
    next
      case x_other: False
      show False
      proof (cases "bId y = i")
        case True
        with y the_row have "y = bk" by simp
        with True x_other hit x no_hit [of x] clash_sym show False by fastforce
      next
        case False
        with x_other hit have "clash x y" by simp
        with x y single show False by (auto simp: doubleBooked_iff)
      qed
    qed
  qed
  with ids' wfs' show ?thesis by (simp add: storeSafe_def)
qed


section \<open>Properties of the blackout registry\<close>

lemma create_block_sound:
  assumes "CourtAvailabilityService_create d newId userId dto = (Inr k, d')"
  shows "blockDatesOrdered k \<and> blockWellFormed k \<and> blocks d' = blocks d @ [k]"
  using assms
  by (auto simp: CourtAvailabilityService_create_def Let_def blockDatesOrdered_def
      blockWellFormed_def timesRejected_def split: option.splits if_splits)

lemma update_block_sound_when_complete:
  assumes "CourtAvailabilityService_update d i userId dto = (Inr k, d')"
    and "uadStartDate dto = Some sd" and "uadEndDate dto = Some ed"
    and "uadStartTime dto = Given st" and "uadEndTime dto = Given en"
  shows "blockDatesOrdered k \<and> blockWellFormed k"
  using assms
  by (auto simp: CourtAvailabilityService_update_def applyBlockUpdate_def truthy_def
      blockDatesOrdered_def blockWellFormed_def timesRejected_def datesRejected_def
      split: option.splits if_splits)

text \<open>
  An explicit \<open>null\<close> for the end time passes the validation and clears the stored end
  time, which turns a timed block into a block of the whole day.
\<close>

lemma update_null_clears_time:
  "CourtAvailabilityService_update weekDb ''k1'' ''u1'' clearEndTime =
     (Inr (weekRow\<lparr> caEndTime := None \<rparr>),
      weekDb\<lparr> blocks := [weekRow\<lparr> caEndTime := None \<rparr>] \<rparr>)"
proof -
  have found: "findBlock weekDb ''k1'' = Some weekRow"
    by (simp add: findBlock_def weekDb_def weekRow_def)
  have owner: "blockOwner weekDb weekRow = Some ''u1''"
    by (simp add: blockOwner_def findCourt_def weekDb_def weekRow_def seedDb_def)
  have rows: "blocks weekDb = [weekRow]" and rowId: "caId weekRow = ''k1''"
    by (simp_all add: weekDb_def weekRow_def)
  show ?thesis
    by (simp add: CourtAvailabilityService_update_def found owner rows rowId
          clearEndTime_def noBlockChange_def datesRejected_def timesRejected_def
          truthy_def applyBlockUpdate_def)
qed

text \<open>
  Claim C9 fails on the code. A block from 2024-01-20 to 2024-01-25, 14:00 to 18:00, is
  created and satisfies both orderings. An update that gives only the end date
  2024-01-10 is accepted and stores an end date before the start date; an update that
  gives only the start time 19:00 is accepted and stores a start time after the end
  time. The update validates a pair only when the request carries both of its fields.
\<close>

theorem blackout_update_breaks_ordering:
  "CourtAvailabilityService_create seedDb ''k1'' ''u1'' weekBlock = (Inr weekRow, weekDb) \<and>
   blockDatesOrdered weekRow = True \<and> blockWellFormed weekRow = True \<and>
   CourtAvailabilityService_update weekDb ''k1'' ''u1'' endBeforeStart =
     (Inr (weekRow\<lparr> caEndDate := instantOf 19732 0 0 \<rparr>),
      weekDb\<lparr> blocks := [weekRow\<lparr> caEndDate := instantOf 19732 0 0 \<rparr>] \<rparr>) \<and>
   blockDatesOrdered (weekRow\<lparr> caEndDate := instantOf 19732 0 0 \<rparr>) = False \<and>
   CourtAvailabilityService_update weekDb ''k1'' ''u1'' startAfterEnd =
     (Inr (weekRow\<lparr> caStartTime := Some (19, 0) \<rparr>),
      weekDb\<lparr> blocks := [weekRow\<lparr> caStartTime := Some (19, 0) \<rparr>] \<rparr>) \<and>
   blockWellFormed (weekRow\<lparr> caStartTime := Some (19, 0) \<rparr>) = False"
proof (intro conjI)
  show "CourtAvailabilityService_create seedDb ''k1'' ''u1'' weekBlock = (Inr weekRow, weekDb)"
    by (simp add: CourtAvailabilityService_create_def Let_def findCourt_def seedDb_def
          weekBlock_def weekRow_def weekDb_def timesRejected_def defaultIsActive_def time_defs)
  show "blockDatesOrdered weekRow = True"
    by (simp add: blockDatesOrdered_def weekRow_def time_defs)
  show "blockWellFormed weekRow = True"
    by (simp add: blockWellFormed_def weekRow_def toMinutes_def)
  have found: "findBlock weekDb ''k1'' = Some weekRow"
    by (simp add: findBlock_def weekDb_def weekRow_def)
  have owner: "blockOwner weekDb weekRow = Some ''u1''"
    by (simp add: blockOwner_def findCourt_def weekDb_def weekRow_def seedDb_def)
  have rows: "blocks weekDb = [weekRow]" and rowId: "caId weekRow = ''k1''"
    by (simp_all add: weekDb_def weekRow_def)
  show "CourtAvailabilityService_update weekDb ''k1'' ''u1'' endBeforeStart =
     (Inr (weekRow\<lparr> caEndDate := instantOf 19732 0 0 \<rparr>),
      weekDb\<lparr> blocks := [weekRow\<lparr> caEndDate := instantOf 19732 0 0 \<rparr>] \<rparr>)"
    by (simp add: CourtAvailabilityService_update_def found owner rows rowId
          endBeforeStart_def noBlockChange_def datesRejected_def timesRejected_def
          truthy_def applyBlockUpdate_def)
  show "blockDatesOrdered (weekRow\<lparr> caEndDate := instantOf 19732 0 0 \<rparr>) = False"
    by (simp add: blockDatesOrdered_def weekRow_def time_defs)
  show "CourtAvailabilityService_update weekDb ''k1'' ''u1'' startAfterEnd =
     (Inr (weekRow\<lparr> caStartTime := Some (19, 0) \<rparr>),
      weekDb\<lparr> blocks := [weekRow\<lparr> caStartTime := Some (19, 0) \<rparr>] \<rparr>)"
    by (simp add: CourtAvailabilityService_update_def found owner rows rowId
          startAfterEnd_def noBlockChange_def datesRejected_def timesRejected_def
          truthy_def applyBlockUpdate_def)
  show "blockWellFormed (weekRow\<lparr> caStartTime := Some (19, 0) \<rparr>) = False"
    by (simp add: blockWellFormed_def weekRow_def toMinutes_def)
qed

end
